theory Spec2Isabelle
  imports Complex_Main
begin

section \<open>download\_bench.py: data model\<close>

text \<open>
  Python \<open>bytes\<close> are lists of \<open>char\<close> (an Isabelle \<open>char\<close> is one byte), file names
  and URLs are strings.  \<open>time()\<close> returns a float; clock readings and the values computed
  from them are modelled by exact reals, so the rounding of float arithmetic is not part
  of the model.  The difference of two floats is zero exactly when they are equal, as for
  reals.
\<close>

type_synonym bytes = string

datatype exn =
    RequestException
  | CalledProcessError int "string list"
  | FileNotFoundError string
  | FileExistsError
  | ZeroDivisionError

text \<open>One line of standard output.  The rendering of numbers (\<open>humanize.naturalsize\<close>,
  the float format specs) is left to the formatting library: a line carries the values of
  the fields of its f-string, in the order in which they appear.\<close>

datatype line =
    Header string
  | MismatchLine string string string bytes bytes
  | ThroughputLine string real nat real

type_synonym filesystem = "string \<rightharpoonup> bytes"

record state =
  files :: filesystem
  tick :: nat
  stdout :: "line list"

text \<open>What an HTTP GET with \<open>stream=True\<close> answers: the request fails, or a response
  arrives whose body stream delivers its bytes and then, when \<open>broken\<close>, raises.
  \<open>raw\<close> is the undecoded stream behind \<open>response.raw\<close>, \<open>content\<close> the
  decoded body that \<open>iter_content\<close> iterates.\<close>

record response =
  raw :: bytes
  content :: bytes
  broken :: "exn option"

datatype http_result = HttpFailed exn | HttpResponse response

text \<open>What spawning a subprocess answers: the tool is not on the path, or it runs,
  leaves the file system as it pleases and exits with a status.\<close>

datatype proc_result = ToolNotFound | Exited int filesystem

text \<open>An incremental hash object in the style of \<open>hashlib\<close>: \<open>h_new\<close> is the
  state of a fresh object, \<open>h_update\<close> feeds it bytes, \<open>h_digest\<close> reads the digest.
  The script is modelled for any such object, passed as \<open>hashlib_md5\<close>.\<close>

record 'h hasher =
  h_new :: 'h
  h_update :: "'h \<Rightarrow> bytes \<Rightarrow> 'h"
  h_digest :: "'h \<Rightarrow> bytes"

text \<open>The world outside the script.  Every interaction with it is numbered by the
  \<open>tick\<close> of the state, and the world's answer may depend on that number: the
  \<open>k\<close>-th clock reading, the answer to a request issued at tick \<open>k\<close>, the candidate
  names \<open>tempfile\<close> draws, and the number of queued calls the pool's worker still
  starts before a cancellation by the main thread reaches them.\<close>

record env =
  now :: "nat \<Rightarrow> real"
  http :: "nat \<Rightarrow> string \<Rightarrow> http_result"
  spawn :: "nat \<Rightarrow> string list \<Rightarrow> filesystem \<Rightarrow> proc_result"
  tmpnames :: "nat \<Rightarrow> string list"
  pool_lag :: "nat \<Rightarrow> nat"

section \<open>Control flow: results, exceptions, try/finally\<close>

type_synonym 'a prog = "state \<Rightarrow> (exn + 'a) \<times> state"

definition ret :: "'a \<Rightarrow> 'a prog" where
  "ret x s = (Inr x, s)"

definition raise :: "exn \<Rightarrow> 'a prog" where
  "raise x s = (Inl x, s)"

definition pbind :: "'a prog \<Rightarrow> ('a \<Rightarrow> 'b prog) \<Rightarrow> 'b prog" where
  "pbind m k s = (case m s of (Inl x, s') \<Rightarrow> (Inl x, s') | (Inr a, s') \<Rightarrow> k a s')"

text \<open>\<open>try: body finally: fin\<close>.  The handler always runs; an exception it raises
  replaces the outcome of the body.\<close>

definition try_finally :: "'a prog \<Rightarrow> unit prog \<Rightarrow> 'a prog" where
  "try_finally body fin s =
     (case body s of (r, s1) \<Rightarrow>
        (case fin s1 of (Inl x, s2) \<Rightarrow> (Inl x, s2) | (Inr _, s2) \<Rightarrow> (r, s2)))"

section \<open>Library operations the script calls\<close>

definition time :: "env \<Rightarrow> real prog" where
  "time e s = (Inr (now e (tick s)), s\<lparr>tick := tick s + 1\<rparr>)"

definition print :: "line \<Rightarrow> unit prog" where
  "print l s = (Inr (), s\<lparr>stdout := stdout s @ [l]\<rparr>)"

text \<open>\<open>open(fname, 'wb')\<close> creates or truncates; \<open>fp.write\<close> appends.\<close>

definition open_wb :: "string \<Rightarrow> unit prog" where
  "open_wb fname s = (Inr (), s\<lparr>files := (files s)(fname \<mapsto> [])\<rparr>)"

definition fp_write :: "string \<Rightarrow> bytes \<Rightarrow> unit prog" where
  "fp_write fname chunk s =
     (Inr (), s\<lparr>files := (files s)(fname \<mapsto> (case files s fname of None \<Rightarrow> [] | Some c \<Rightarrow> c) @ chunk)\<rparr>)"

text \<open>\<open>open(fname, 'rb')\<close> gives the content, and raises when the file is missing.\<close>

definition open_rb :: "string \<Rightarrow> bytes prog" where
  "open_rb fname s =
     (case files s fname of None \<Rightarrow> (Inl (FileNotFoundError fname), s) | Some c \<Rightarrow> (Inr c, s))"

definition unlink :: "string \<Rightarrow> unit prog" where
  "unlink fname s =
     (case files s fname of
        None \<Rightarrow> (Inl (FileNotFoundError fname), s)
      | Some _ \<Rightarrow> (Inr (), s\<lparr>files := (files s)(fname := None)\<rparr>))"

text \<open>\<open>tempfile.NamedTemporaryFile(delete=False)\<close> followed by \<open>fp.close()\<close>: the
  first candidate name that does not exist yet is created, empty; with no usable name
  among the \<open>TMP_MAX\<close> candidates the call raises.\<close>

definition TMP_MAX :: nat where
  "TMP_MAX = 10000"

definition NamedTemporaryFile :: "env \<Rightarrow> string prog" where
  "NamedTemporaryFile e s =
     (case find (\<lambda>n. files s n = None) (take TMP_MAX (tmpnames e (tick s))) of
        None \<Rightarrow> (Inl FileExistsError, s\<lparr>tick := tick s + 1\<rparr>)
      | Some n \<Rightarrow> (Inr n, s\<lparr>files := (files s)(n \<mapsto> []), tick := tick s + 1\<rparr>))"

text \<open>\<open>requests.get(url, stream=True)\<close>.\<close>

definition requests_get :: "env \<Rightarrow> string \<Rightarrow> response prog" where
  "requests_get e url s =
     (case http e (tick s) url of
        HttpFailed x \<Rightarrow> (Inl x, s\<lparr>tick := tick s + 1\<rparr>)
      | HttpResponse r \<Rightarrow> (Inr r, s\<lparr>tick := tick s + 1\<rparr>))"

text \<open>\<open>subprocess.check_call(argv)\<close>: returns 0, or raises on a non-zero status.\<close>

definition check_call :: "env \<Rightarrow> string list \<Rightarrow> int prog" where
  "check_call e argv s =
     (case spawn e (tick s) argv (files s) of
        ToolNotFound \<Rightarrow> (Inl (FileNotFoundError (concat (take 1 argv))), s\<lparr>tick := tick s + 1\<rparr>)
      | Exited rc fs \<Rightarrow>
          (if rc \<noteq> 0 then Inl (CalledProcessError rc argv) else Inr 0,
           s\<lparr>files := fs, tick := tick s + 1\<rparr>))"

text \<open>\<open>int / float\<close>.\<close>

definition truediv :: "nat \<Rightarrow> real \<Rightarrow> real prog" where
  "truediv a b = (if b = 0 then raise ZeroDivisionError else ret (real a / b))"

text \<open>\<open>shutil.copyfileobj(stream, fp)\<close>: everything the stream delivers is written,
  then the stream's failure, if any, surfaces.\<close>

definition copyfileobj :: "bytes \<Rightarrow> exn option \<Rightarrow> string \<Rightarrow> unit prog" where
  "copyfileobj delivered failure fname =
     pbind (fp_write fname delivered)
       (\<lambda>_. case failure of None \<Rightarrow> ret () | Some x \<Rightarrow> raise x)"

text \<open>\<open>response.iter_content(chunk_size=n)\<close>: the body in pieces of \<open>n\<close> bytes, the
  last one possibly shorter.\<close>

function iter_content :: "nat \<Rightarrow> bytes \<Rightarrow> bytes list" where
  "iter_content n body =
     (if n = 0 \<or> body = [] then [] else take n body # iter_content n (drop n body))"
  by pat_completeness auto
termination
  by (relation "measure (\<lambda>(n, body). length body)") auto

declare iter_content.simps [simp del]

text \<open>\<open>base64.b64encode\<close>.\<close>

definition b64_alphabet :: string where
  "b64_alphabet = ''ABCDEFGHIJKLMNOPQRSTUVWXYZabcdefghijklmnopqrstuvwxyz0123456789+/''"

definition b64_char :: "nat \<Rightarrow> char" where
  "b64_char n = b64_alphabet ! (n mod 64)"

fun b64encode :: "bytes \<Rightarrow> bytes" where
  "b64encode (a # b # c # rest) =
     (let n = of_char a * 65536 + of_char b * 256 + of_char c
      in [b64_char (n div 262144), b64_char (n div 4096), b64_char (n div 64), b64_char n])
     @ b64encode rest"
| "b64encode [a, b] =
     (let n = of_char a * 65536 + of_char b * 256
      in [b64_char (n div 262144), b64_char (n div 4096), b64_char (n div 64), CHR ''=''])"
| "b64encode [a] =
     (let n = of_char a * 65536
      in [b64_char (n div 262144), b64_char (n div 4096), CHR ''='', CHR ''=''])"
| "b64encode [] = []"

section \<open>The script\<close>

text \<open>A file descriptor is a dict with the keys \<open>name\<close>, \<open>url\<close>, \<open>md5\<close> (base64)
  and \<open>size\<close>; the last one is the field \<open>size_label\<close> here.\<close>

record file_desc =
  name :: string
  url :: string
  md5 :: bytes
  size_label :: string

definition FILES :: "file_desc list" where
  "FILES =
     [\<lparr>name = ''LC80440342016259LGN00_BQA.TIF'',
       url = ''https://storage.googleapis.com/gcp-public-data-landsat/LC08/PRE/044/034/LC80440342016259LGN00/LC80440342016259LGN00_BQA.TIF'',
       md5 = ''zqigvl5Envmi/GLc8yH51A=='',
       size_label = ''3.2MB''\<rparr>,
      \<lparr>name = ''LC80440342016259LGN00_B1.TIF'',
       url = ''https://storage.googleapis.com/gcp-public-data-landsat/LC08/PRE/044/034/LC80440342016259LGN00/LC80440342016259LGN00_B1.TIF'',
       md5 = ''835L6B5frB0zCB6s22r2Sw=='',
       size_label = ''71.26MB''\<rparr>,
      \<lparr>name = ''LC80440342016259LGN00_B8.TIF'',
       url = ''https://storage.googleapis.com/gcp-public-data-landsat/LC08/PRE/044/034/LC80440342016259LGN00/LC80440342016259LGN00_B8.TIF'',
       md5 = ''y795LrUzBwk2tL6PM01cEA=='',
       size_label = ''304.12MB''\<rparr>]"

text \<open>A Python function object: its \<open>__name__\<close> and what calling it with
  \<open>(url, fname)\<close> does.\<close>

record 'r func =
  func_name :: string
  call :: "env \<Rightarrow> string \<Rightarrow> string \<Rightarrow> 'r prog"

text \<open>The decorator \<open>bench\<close>.  \<open>wraps\<close> gives the wrapper the name of the function it
  wraps; the decorator appends the wrapper to the registry and returns it.\<close>

definition wrapper :: "'r func \<Rightarrow> real func" where
  "wrapper download_func =
     \<lparr>func_name = func_name download_func,
      call = (\<lambda>e url fname.
        pbind (time e) (\<lambda>start.
        pbind (call download_func e url fname) (\<lambda>_.
        pbind (time e) (\<lambda>finish.
        ret (finish - start)))))\<rparr>"

definition bench ::
  "'r func \<Rightarrow> real func list \<Rightarrow> real func \<times> real func list" where
  "bench download_func registry = (wrapper download_func, registry @ [wrapper download_func])"

text \<open>\<open>calc_md5\<close>: the loop \<open>for chunk in iter(lambda: fp.read(1024 * 1024), b'')\<close>
  over an open file with content \<open>c\<close>, read position \<open>pos\<close> and hash object \<open>h\<close>.
  \<open>fp.read(n)\<close> gives the next \<open>n\<close> bytes, fewer at the end of the file.\<close>

function read_loop :: "'h hasher \<Rightarrow> nat \<Rightarrow> bytes \<Rightarrow> nat \<Rightarrow> 'h \<Rightarrow> 'h" where
  "read_loop H n c pos h =
     (let chunk = take n (drop pos c)
      in if chunk = [] then h
         else read_loop H n c (pos + length chunk) (h_update H h chunk))"
  by pat_completeness auto
termination
  by (relation "measure (\<lambda>(H, n, c, pos, h). length c - pos)") auto

declare read_loop.simps [simp del]

definition calc_md5 :: "'h hasher \<Rightarrow> string \<Rightarrow> bytes prog" where
  "calc_md5 H fname =
     pbind (open_rb fname) (\<lambda>c.
       ret (b64encode (h_digest H (read_loop H (1024 * 1024) c 0 (h_new H)))))"

text \<open>\<open>file_size\<close>: \<open>fp.seek(0, 2)\<close> returns the offset of the end of the file.\<close>

definition file_size :: "string \<Rightarrow> nat prog" where
  "file_size fname = pbind (open_rb fname) (\<lambda>c. ret (length c))"

definition bench_download ::
  "'h hasher \<Rightarrow> env \<Rightarrow> file_desc \<Rightarrow> real func \<Rightarrow> unit prog" where
  "bench_download hashlib_md5 e file_desc download_func =
     pbind (NamedTemporaryFile e) (\<lambda>fp_name.
       try_finally
         (pbind (call download_func e (url file_desc) fp_name) (\<lambda>total_time.
          pbind (calc_md5 hashlib_md5 fp_name) (\<lambda>md5_found.
            if md5_found \<noteq> md5 file_desc then
              print (MismatchLine (func_name download_func) (name file_desc)
                       (size_label file_desc) md5_found (md5 file_desc))
            else
              pbind (file_size fp_name) (\<lambda>total_bytes.
              pbind (truediv total_bytes total_time) (\<lambda>speed.
                print (ThroughputLine (func_name download_func) total_time total_bytes speed))))))
         (unlink fp_name))"

text \<open>The four download functions, as written before decoration.\<close>

definition requests_raw_shutil_def :: "unit func" where
  "requests_raw_shutil_def =
     \<lparr>func_name = ''requests_raw_shutil'',
      call = (\<lambda>e url fname.
        pbind (requests_get e url) (\<lambda>response.
        pbind (open_wb fname) (\<lambda>_.
          copyfileobj (raw response) (broken response) fname)))\<rparr>"

fun write_chunks :: "string \<Rightarrow> bytes list \<Rightarrow> unit prog" where
  "write_chunks fname [] = ret ()"
| "write_chunks fname (chunk # chunks) =
     pbind (fp_write fname chunk) (\<lambda>_. write_chunks fname chunks)"

definition requests_chunks_def :: "unit func" where
  "requests_chunks_def =
     \<lparr>func_name = ''requests_chunks'',
      call = (\<lambda>e url fname.
        pbind (requests_get e url) (\<lambda>response.
        pbind (open_wb fname) (\<lambda>_.
        pbind (write_chunks fname (iter_content (128 * 1024) (content response))) (\<lambda>_.
          case broken response of None \<Rightarrow> ret () | Some x \<Rightarrow> raise x))))\<rparr>"

definition wget_subprocess_def :: "unit func" where
  "wget_subprocess_def =
     \<lparr>func_name = ''wget_subprocess'',
      call = (\<lambda>e url fname.
        pbind (check_call e [''wget'', ''-q'', ''-O'', fname, url]) (\<lambda>_. ret ()))\<rparr>"

definition curl_subprocess_def :: "unit func" where
  "curl_subprocess_def =
     \<lparr>func_name = ''curl_subprocess'',
      call = (\<lambda>e url fname.
        pbind (check_call e [''curl'', ''-s'', ''-o'', fname, url]) (\<lambda>_. ret ()))\<rparr>"

text \<open>Loading the module: \<open>DOWNLOAD_FUNCTIONS\<close> starts empty and each \<open>@bench\<close>
  runs in the order of the definitions.\<close>

definition DOWNLOAD_FUNCTIONS :: "real func list" where
  "DOWNLOAD_FUNCTIONS =
     (let registry = [];
          (requests_raw_shutil, registry) = bench requests_raw_shutil_def registry;
          (requests_chunks, registry) = bench requests_chunks_def registry;
          (wget_subprocess, registry) = bench wget_subprocess_def registry;
          (curl_subprocess, registry) = bench curl_subprocess_def registry
      in registry)"

text \<open>\<open>itertools.product(xs, ys)\<close>: the rightmost argument varies fastest.\<close>

definition itertools_product :: "'a list \<Rightarrow> 'b list \<Rightarrow> ('a \<times> 'b) list" where
  "itertools_product xs ys = concat (map (\<lambda>x. map (\<lambda>y. (x, y)) ys) xs)"

text \<open>\<open>list(map(f, xs))\<close> in the calling thread: the first exception ends it.\<close>

fun list_map :: "('a \<Rightarrow> 'b prog) \<Rightarrow> 'a list \<Rightarrow> 'b list prog" where
  "list_map f [] = ret []"
| "list_map f (x # xs) = pbind (f x) (\<lambda>y. pbind (list_map f xs) (\<lambda>ys. ret (y # ys)))"

text \<open>\<open>list(executor.map(f, xs))\<close> on a \<open>ThreadPoolExecutor(max_workers=1)\<close>, left
  through its \<open>with\<close> block.  \<open>executor.map\<close> submits every call at once; the single
  worker runs them one after the other in the order of submission, and the main thread
  collects the results in that order.  When a result is an exception, the main thread
  cancels the calls still queued and raises it; until the cancellation arrives the worker
  goes on (\<open>drain\<close>), and what those calls return or raise is dropped.\<close>

fun drain :: "nat \<Rightarrow> ('a \<Rightarrow> 'b prog) \<Rightarrow> 'a list \<Rightarrow> state \<Rightarrow> state" where
  "drain 0 f xs s = s"
| "drain (Suc k) f [] s = s"
| "drain (Suc k) f (x # xs) s = drain k f xs (snd (f x s))"

fun executor_map :: "env \<Rightarrow> ('a \<Rightarrow> 'b prog) \<Rightarrow> 'a list \<Rightarrow> 'b list prog" where
  "executor_map e f [] s = (Inr [], s)"
| "executor_map e f (x # xs) s =
     (case f x s of
        (Inl err, s') \<Rightarrow> (Inl err, drain (pool_lag e (tick s')) f xs s')
      | (Inr y, s') \<Rightarrow>
          (case executor_map e f xs s' of
             (Inl err, s'') \<Rightarrow> (Inl err, s'')
           | (Inr ys, s'') \<Rightarrow> (Inr (y # ys), s'')))"

text \<open>The function both passes map over the pairs, \<open>lambda args: bench_download(*args)\<close>.\<close>

definition bench_download_args :: "'h hasher \<Rightarrow> env \<Rightarrow> file_desc \<times> real func \<Rightarrow> unit prog" where
  "bench_download_args hashlib_md5 e args =
     (case args of (file_desc, download_func) \<Rightarrow>
        bench_download hashlib_md5 e file_desc download_func)"

definition run_download_bench :: "'h hasher \<Rightarrow> env \<Rightarrow> unit prog" where
  "run_download_bench hashlib_md5 e =
     pbind (print (Header ''=== Benchmark download in main thread ==='')) (\<lambda>_.
     pbind (list_map (bench_download_args hashlib_md5 e)
              (itertools_product FILES DOWNLOAD_FUNCTIONS)) (\<lambda>_.
     pbind (print (Header ''=== Benchmark download in a single worker thread pool ==='')) (\<lambda>_.
     pbind (executor_map e (bench_download_args hashlib_md5 e)
              (itertools_product FILES DOWNLOAD_FUNCTIONS)) (\<lambda>_.
       ret ()))))"

section \<open>Notions used in the statements\<close>

text \<open>The contract of a \<open>hashlib\<close> object: feeding no bytes changes nothing, and
  \<open>m.update(a); m.update(b)\<close> is equivalent to \<open>m.update(a + b)\<close>.\<close>

definition incremental :: "'h hasher \<Rightarrow> bool" where
  "incremental H \<longleftrightarrow>
     (\<forall>h. h_update H h [] = h) \<and>
     (\<forall>h a b. h_update H (h_update H h a) b = h_update H h (a @ b))"



text \<open>A line is about a pair when it names the strategy of the pair and, for a mismatch
  line, the file of the pair as well.\<close>

fun line_about :: "line \<Rightarrow> file_desc \<times> real func \<Rightarrow> bool" where
  "line_about (Header h) (fd, f) \<longleftrightarrow> False"
| "line_about (MismatchLine n fname sz d ex) (fd, f) \<longleftrightarrow>
     n = func_name f \<and> fname = name fd \<and> sz = size_label fd \<and> ex = md5 fd"
| "line_about (ThroughputLine n t b sp) (fd, f) \<longleftrightarrow> n = func_name f"

text \<open>Two worlds give the same answers, the second \<open>d\<close> interactions later than the
  first, when they agree on the network, on the external tools and on the names for
  temporary files.  Their clocks and the lag of the pool are free.\<close>

definition same_answers :: "nat \<Rightarrow> env \<Rightarrow> env \<Rightarrow> bool" where
  "same_answers d e1 e2 \<longleftrightarrow>
     (\<forall>k. http e2 (k + d) = http e1 k) \<and>
     (\<forall>k. spawn e2 (k + d) = spawn e1 k) \<and>
     (\<forall>k. tmpnames e2 (k + d) = tmpnames e1 k)"

section \<open>An example world\<close>

text \<open>A small checksum stands in for MD5 where a statement is evaluated.\<close>

definition toy_md5 :: "nat hasher" where
  "toy_md5 =
     \<lparr>h_new = 7,
      h_update = (\<lambda>h bs. foldl (\<lambda>a c. (a * 31 + of_char c) mod 65521) h bs),
      h_digest = (\<lambda>h. [char_of (h div 256), char_of h])\<rparr>"

definition s0 :: state where
  "s0 = \<lparr>files = Map.empty, tick = 0, stdout = []\<rparr>"

text \<open>A world in which one second passes between two clock readings, every URL but one
  answers with the same twelve bytes, and the external tools do likewise.\<close>

definition example_env :: "env" where
  "example_env =
     \<lparr>now = (\<lambda>k. real k),
      http = (\<lambda>k u. if u = ''http://invalid.invalid/'' then HttpFailed RequestException
               else HttpResponse \<lparr>raw = ''hello world!'', content = ''hello world!'', broken = None\<rparr>),
      spawn = (\<lambda>k argv fs. case argv of
                 [tool, quiet, out, fname, u] \<Rightarrow>
                   if u = ''http://invalid.invalid/'' then Exited 4 fs
                   else Exited 0 (fs(fname \<mapsto> ''hello world!''))
               | _ \<Rightarrow> ToolNotFound),
      tmpnames = (\<lambda>k. [''/tmp/tmp0'', ''/tmp/tmp1'']),
      pool_lag = (\<lambda>k. 1)\<rparr>"

text \<open>The same world with a clock that stands still, with no network, and with tools
  that always fail.\<close>

definition frozen_env :: env where
  "frozen_env = example_env\<lparr>now := (\<lambda>k. 0)\<rparr>"

definition unreachable_desc :: file_desc where
  "unreachable_desc = \<lparr>name = ''nowhere.txt'', url = ''http://invalid.invalid/'', md5 = ''UsA='', size_label = ''12B''\<rparr>"

definition offline_env :: env where
  "offline_env = example_env\<lparr>http := (\<lambda>k u. HttpFailed RequestException)\<rparr>"

definition no_tools_env :: env where
  "no_tools_env = example_env\<lparr>spawn := (\<lambda>k argv fs. Exited 4 fs)\<rparr>"

text \<open>A world whose tools fail and leave a log file behind.\<close>

definition littering_env :: env where
  "littering_env =
     example_env\<lparr>spawn := (\<lambda>k argv fs. Exited 4 (fs(''/tmp/wget.log'' \<mapsto> ''failed'')))\<rparr>"

definition hello_desc :: file_desc where
  "hello_desc = \<lparr>name = ''hello.txt'', url = ''http://example.org/hello.txt'', md5 = ''UsA='', size_label = ''12B''\<rparr>"


definition example_line :: "env \<Rightarrow> nat \<Rightarrow> file_desc \<times> real func \<Rightarrow> line" where
  "example_line e k pair =
     (case pair of (fd, f) \<Rightarrow>
        if md5 fd = ''UsA=''
        then ThroughputLine (func_name f) (now e (k + 3) - now e (k + 1)) 12
               (12 / (now e (k + 3) - now e (k + 1)))
        else MismatchLine (func_name f) (name fd) (size_label fd) ''UsA='' (md5 fd))"

section \<open>Properties\<close>

subsection \<open>Sequencing\<close>

lemma pbind_Inr: "m s = (Inr a, s') \<Longrightarrow> pbind m k s = k a s'"
  by (simp add: pbind_def)

lemma pbind_Inl: "m s = (Inl x, s') \<Longrightarrow> pbind m k s = (Inl x, s')"
  by (simp add: pbind_def)

subsection \<open>The digest of a file\<close>

lemma take_drop_chunk:
  "take n (drop pos c) @ drop (pos + length (take n (drop pos c))) c = drop pos c"
proof -
  have "drop (pos + length (take n (drop pos c))) c
      = drop (length (take n (drop pos c))) (drop pos c)"
    by (simp add: add.commute)
  also have "\<dots> = drop n (drop pos c)"
    by (cases "n \<le> length (drop pos c)") (simp_all add: min_def)
  finally have "drop (pos + length (take n (drop pos c))) c = drop n (drop pos c)" .
  then show ?thesis by (simp only: append_take_drop_id)
qed

text \<open>The loop invariant: from read position \<open>pos\<close> the loop feeds exactly the rest of
  the file.\<close>

lemma read_loop_whole:
  assumes "incremental H" and "0 < n"
  shows "read_loop H n c pos h = h_update H h (drop pos c)"
  using assms
proof (induction H n c pos h rule: read_loop.induct)
  case (1 H n c pos h)
  let ?chunk = "take n (drop pos c)"
  show ?case
  proof (cases "?chunk = []")
    case True
    with \<open>0 < n\<close> have "drop pos c = []" by (cases "drop pos c") auto
    with True 1(2) show ?thesis
      by (subst read_loop.simps) (simp add: incremental_def)
  next
    case False
    then have "read_loop H n c pos h =
        read_loop H n c (pos + length ?chunk) (h_update H h ?chunk)"
      by (subst read_loop.simps) (simp add: Let_def)
    also have "\<dots> = h_update H (h_update H h ?chunk) (drop (pos + length ?chunk) c)"
      using 1 False by simp
    also have "\<dots> = h_update H h (?chunk @ drop (pos + length ?chunk) c)"
      using 1(2) by (simp add: incremental_def)
    also have "\<dots> = h_update H h (drop pos c)"
      by (simp only: take_drop_chunk)
    finally show ?thesis .
  qed
qed

lemma incremental_toy_md5: "incremental toy_md5"
  by (simp add: incremental_def toy_md5_def)

lemma toy_md5_hello:
  "b64encode (h_digest toy_md5 (h_update toy_md5 (h_new toy_md5) ''hello world!'')) = ''UsA=''"
  by (simp add: toy_md5_def b64_char_def b64_alphabet_def)

text \<open>
  Claim C7.  For every file, \<open>calc_md5\<close>, which reads the file in blocks of 1 MiB and
  feeds each block to the incremental hash object, returns the base64 encoding of the
  digest obtained by hashing the whole content of the file in one go.  The hash object is
  any object that honours the contract \<open>incremental\<close>.
\<close>

theorem calc_md5_chunked_equals_whole:
  assumes "incremental H" and "files s fname = Some c"
  shows "calc_md5 H fname s = (Inr (b64encode (h_digest H (h_update H (h_new H) c))), s)"
  using assms by (simp add: calc_md5_def pbind_def open_rb_def ret_def read_loop_whole)

theorem calc_md5_chunked_equals_whole_witness:
  "incremental toy_md5 \<and>
   files (s0\<lparr>files := [''/tmp/f'' \<mapsto> ''hello world!'']\<rparr>) ''/tmp/f'' = Some ''hello world!'' \<and>
   calc_md5 toy_md5 ''/tmp/f'' (s0\<lparr>files := [''/tmp/f'' \<mapsto> ''hello world!'']\<rparr>)
     = (Inr ''UsA='', s0\<lparr>files := [''/tmp/f'' \<mapsto> ''hello world!'']\<rparr>)"
proof -
  have inc: "incremental toy_md5" by (rule incremental_toy_md5)
  have f: "files (s0\<lparr>files := [''/tmp/f'' \<mapsto> ''hello world!'']\<rparr>) ''/tmp/f''
      = Some ''hello world!''"
    by (simp add: s0_def)
  show ?thesis
    using inc f calc_md5_chunked_equals_whole [OF inc f] by (simp only: toy_md5_hello simp_thms)
qed

subsection \<open>One iteration\<close>

lemma NamedTemporaryFile_Inr:
  assumes "NamedTemporaryFile e s = (Inr p, s1)"
  shows "files s p = None \<and> s1 = s\<lparr>files := (files s)(p \<mapsto> []), tick := tick s + 1\<rparr>"
  using assms
  by (auto simp: NamedTemporaryFile_def find_Some_iff split: option.splits)

lemma wrapper_call:
  "call (wrapper g) e u p s =
     (case call g e u p (s\<lparr>tick := tick s + 1\<rparr>) of
        (Inl x, s') \<Rightarrow> (Inl x, s')
      | (Inr r, s') \<Rightarrow> (Inr (now e (tick s') - now e (tick s)), s'\<lparr>tick := tick s' + 1\<rparr>))"
  by (simp add: wrapper_def pbind_def time_def ret_def split: prod.splits sum.splits)

lemma func_name_wrapper: "func_name (wrapper g) = func_name g"
  by (simp add: wrapper_def)

lemma DOWNLOAD_FUNCTIONS_eq:
  "DOWNLOAD_FUNCTIONS =
     [wrapper requests_raw_shutil_def, wrapper requests_chunks_def,
      wrapper wget_subprocess_def, wrapper curl_subprocess_def]"
  by (simp add: DOWNLOAD_FUNCTIONS_def bench_def)

lemma bench_download_strategy_raises:
  assumes "NamedTemporaryFile e s = (Inr p, s1)"
    and "call f e (url fd) p s1 = (Inl x, s2)"
  shows "bench_download H e fd f s =
     (case files s2 p of
        None \<Rightarrow> (Inl (FileNotFoundError p), s2)
      | Some c \<Rightarrow> (Inl x, s2\<lparr>files := (files s2)(p := None)\<rparr>))"
  using assms
  by (simp add: bench_download_def pbind_def try_finally_def unlink_def split: option.splits)

lemma bench_download_file_gone:
  assumes "NamedTemporaryFile e s = (Inr p, s1)"
    and "call f e (url fd) p s1 = (Inr t, s2)"
    and "files s2 p = None"
  shows "bench_download H e fd f s = (Inl (FileNotFoundError p), s2)"
  using assms
  by (simp add: bench_download_def pbind_def try_finally_def unlink_def calc_md5_def open_rb_def)

lemma bench_download_completed:
  assumes "NamedTemporaryFile e s = (Inr p, s1)"
    and "call f e (url fd) p s1 = (Inr t, s2)"
    and "files s2 p = Some c"
    and "fst (calc_md5 H p s2) = Inr d"
  shows "bench_download H e fd f s =
     (if d \<noteq> md5 fd then
        (Inr (), s2\<lparr>files := (files s2)(p := None),
                    stdout := stdout s2 @ [MismatchLine (func_name f) (name fd) (size_label fd) d (md5 fd)]\<rparr>)
      else if t = 0 then
        (Inl ZeroDivisionError, s2\<lparr>files := (files s2)(p := None)\<rparr>)
      else
        (Inr (), s2\<lparr>files := (files s2)(p := None),
                    stdout := stdout s2 @ [ThroughputLine (func_name f) t (length c) (real (length c) / t)]\<rparr>))"
proof -
  from assms(3,4) have "calc_md5 H p s2 = (Inr d, s2)"
    by (simp add: calc_md5_def pbind_def open_rb_def ret_def)
  with assms(1-3) show ?thesis
    by (simp add: bench_download_def pbind_def try_finally_def unlink_def print_def
        file_size_def open_rb_def truediv_def ret_def raise_def)
qed

lemma calc_md5_present:
  "files s p = Some c \<Longrightarrow>
   calc_md5 H p s = (Inr (b64encode (h_digest H (read_loop H (1024 * 1024) c 0 (h_new H)))), s)"
  by (simp add: calc_md5_def pbind_def open_rb_def ret_def)

text \<open>
  Claim C3.  In every benchmark iteration the temporary file is freshly created (its name
  did not exist before, and the iteration starts the download function on a file system
  that differs from the old one by that empty file alone), and the iteration ends on the
  file system that the download function left, with the temporary file removed from it
  and nothing else changed.  So the file does not exist any more when the iteration is
  over, whatever the download function did and however the iteration ended: with a
  throughput line, with a mismatch line, or with an error of the download function, of
  the digest computation or of the division.
\<close>

theorem temp_file_removed:
  assumes "NamedTemporaryFile e s = (Inr p, s1)"
    and "call f e (url fd) p s1 = (r, s2)"
  shows "files s p = None \<and> files s1 = (files s)(p \<mapsto> []) \<and> files s1 p = Some [] \<and>
         files (snd (bench_download H e fd f s)) = (files s2)(p := None) \<and>
         files (snd (bench_download H e fd f s)) p = None"
proof -
  from NamedTemporaryFile_Inr [OF assms(1)]
  have a: "files s p = None" and b: "files s1 = (files s)(p \<mapsto> [])"
    by simp_all
  have gone: "(files s2)(p := None) = files s2" if "files s2 p = None"
    using that by (simp add: fun_upd_idem)
  have c: "files (snd (bench_download H e fd f s)) = (files s2)(p := None)"
  proof (cases r)
    case (Inl x)
    show ?thesis
    proof (cases "files s2 p")
      case None
      with bench_download_strategy_raises [OF assms(1) assms(2) [unfolded Inl], of H] gone
      show ?thesis by simp
    next
      case (Some cnt)
      with bench_download_strategy_raises [OF assms(1) assms(2) [unfolded Inl], of H]
      show ?thesis by simp
    qed
  next
    case (Inr t)
    show ?thesis
    proof (cases "files s2 p")
      case None
      with bench_download_file_gone [OF assms(1) assms(2) [unfolded Inr] None, of H] gone
      show ?thesis by simp
    next
      case (Some cnt)
      then have "fst (calc_md5 H p s2)
          = Inr (b64encode (h_digest H (read_loop H (1024 * 1024) cnt 0 (h_new H))))"
        by (simp add: calc_md5_present)
      from bench_download_completed [OF assms(1) assms(2) [unfolded Inr] Some this]
      show ?thesis by simp
    qed
  qed
  from a b c show ?thesis by simp
qed

lemma example_tmp:
  "NamedTemporaryFile example_env s0 = (Inr ''/tmp/tmp0'', \<lparr>files = [''/tmp/tmp0'' \<mapsto> []], tick = 1, stdout = []\<rparr>)"
  by (simp add: NamedTemporaryFile_def example_env_def s0_def TMP_MAX_def)

lemma littering_tmp:
  "NamedTemporaryFile littering_env s0 = (Inr ''/tmp/tmp0'', \<lparr>files = [''/tmp/tmp0'' \<mapsto> []], tick = 1, stdout = []\<rparr>)"
  by (simp add: NamedTemporaryFile_def littering_env_def example_env_def s0_def TMP_MAX_def)

lemma littering_wget:
  "call (wrapper wget_subprocess_def) littering_env (url hello_desc) ''/tmp/tmp0''
     \<lparr>files = [''/tmp/tmp0'' \<mapsto> []], tick = 1, stdout = []\<rparr>
   = (Inl (CalledProcessError 4 [''wget'', ''-q'', ''-O'', ''/tmp/tmp0'', url hello_desc]),
      \<lparr>files = [''/tmp/tmp0'' \<mapsto> [], ''/tmp/wget.log'' \<mapsto> ''failed''], tick = 3, stdout = []\<rparr>)"
  by (simp add: wrapper_call wget_subprocess_def_def littering_env_def example_env_def
      check_call_def pbind_def)

theorem temp_file_removed_witness:
  "NamedTemporaryFile littering_env s0
     = (Inr ''/tmp/tmp0'', \<lparr>files = [''/tmp/tmp0'' \<mapsto> []], tick = 1, stdout = []\<rparr>) \<and>
   call (wrapper wget_subprocess_def) littering_env (url hello_desc) ''/tmp/tmp0''
       \<lparr>files = [''/tmp/tmp0'' \<mapsto> []], tick = 1, stdout = []\<rparr>
     = (Inl (CalledProcessError 4 [''wget'', ''-q'', ''-O'', ''/tmp/tmp0'', url hello_desc]),
        \<lparr>files = [''/tmp/tmp0'' \<mapsto> [], ''/tmp/wget.log'' \<mapsto> ''failed''], tick = 3, stdout = []\<rparr>) \<and>
   files s0 ''/tmp/tmp0'' = None \<and>
   files s0 ''/tmp/wget.log'' = None \<and>
   files (snd (bench_download toy_md5 littering_env hello_desc (wrapper wget_subprocess_def) s0))
     = [''/tmp/wget.log'' \<mapsto> ''failed''] \<and>
   files (snd (bench_download toy_md5 littering_env hello_desc (wrapper wget_subprocess_def) s0))
     ''/tmp/wget.log'' = Some ''failed'' \<and>
   files (snd (bench_download toy_md5 littering_env hello_desc (wrapper wget_subprocess_def) s0))
     ''/tmp/tmp0'' = None"
proof -
  note th = temp_file_removed [OF littering_tmp littering_wget, where H = toy_md5]
  have e: "files s0 ''/tmp/tmp0'' = None" "files s0 ''/tmp/wget.log'' = None"
    by (simp_all add: s0_def)
  have c: "files (snd (bench_download toy_md5 littering_env hello_desc (wrapper wget_subprocess_def) s0))
     = [''/tmp/wget.log'' \<mapsto> ''failed'']"
    using th [THEN conjunct2, THEN conjunct2, THEN conjunct2, THEN conjunct1] by simp
  then have d: "files (snd (bench_download toy_md5 littering_env hello_desc (wrapper wget_subprocess_def) s0))
     ''/tmp/wget.log'' = Some ''failed''"
    by simp
  from c have g: "files (snd (bench_download toy_md5 littering_env hello_desc (wrapper wget_subprocess_def) s0))
     ''/tmp/tmp0'' = None"
    by simp
  from littering_tmp littering_wget e c d g show ?thesis by (intro conjI)
qed

lemma calc_md5_tick: "calc_md5 H p (s\<lparr>tick := k\<rparr>) = (fst (calc_md5 H p s), s\<lparr>tick := k\<rparr>)"
  by (simp add: calc_md5_def pbind_def open_rb_def ret_def split: option.splits)

text \<open>
  Claim C4.  When the digest matches, the throughput that is reported is the length of the
  downloaded file as found on the file system, divided by the elapsed seconds; the elapsed
  seconds are the clock reading taken right after the download function returns minus the
  reading taken right before it is called.  (With equal readings nothing is reported.)
\<close>

theorem throughput_is_size_over_elapsed:
  assumes "NamedTemporaryFile e s = (Inr p, s1)"
    and "call g e (url fd) p (s1\<lparr>tick := tick s1 + 1\<rparr>) = (Inr r, s2)"
    and "files s2 p = Some c"
    and "fst (calc_md5 H p s2) = Inr (md5 fd)"
  shows "stdout (snd (bench_download H e fd (wrapper g) s)) =
         stdout s2 @
           (if now e (tick s2) - now e (tick s1) = 0 then []
            else [ThroughputLine (func_name g) (now e (tick s2) - now e (tick s1)) (length c)
                    (real (length c) / (now e (tick s2) - now e (tick s1)))])"
proof -
  let ?s3 = "s2\<lparr>tick := tick s2 + 1\<rparr>"
  have w: "call (wrapper g) e (url fd) p s1 = (Inr (now e (tick s2) - now e (tick s1)), ?s3)"
    using assms(2) by (simp add: wrapper_call)
  have f: "files ?s3 p = Some c" using assms(3) by simp
  have d: "fst (calc_md5 H p ?s3) = Inr (md5 fd)" using assms(4) by (simp add: calc_md5_tick)
  show ?thesis
    by (simp add: bench_download_completed [OF assms(1) w f d] func_name_wrapper)
qed

lemma example_wget:
  "call wget_subprocess_def example_env (url hello_desc) ''/tmp/tmp0''
     (\<lparr>files = [''/tmp/tmp0'' \<mapsto> []], tick = 1, stdout = []\<rparr>\<lparr>tick := tick \<lparr>files = [''/tmp/tmp0'' \<mapsto> []], tick = 1, stdout = []\<rparr> + 1\<rparr>)
   = (Inr (), \<lparr>files = [''/tmp/tmp0'' \<mapsto> ''hello world!''], tick = 3, stdout = []\<rparr>)"
  by (simp add: wget_subprocess_def_def example_env_def hello_desc_def check_call_def pbind_def ret_def)

lemma example_digest:
  "fst (calc_md5 toy_md5 ''/tmp/tmp0''
          \<lparr>files = [''/tmp/tmp0'' \<mapsto> ''hello world!''], tick = k, stdout = []\<rparr>)
   = Inr (md5 hello_desc)"
  by (simp add: calc_md5_def pbind_def open_rb_def ret_def read_loop_whole incremental_toy_md5
      toy_md5_hello hello_desc_def)

theorem throughput_is_size_over_elapsed_witness:
  "NamedTemporaryFile example_env s0 = (Inr ''/tmp/tmp0'', \<lparr>files = [''/tmp/tmp0'' \<mapsto> []], tick = 1, stdout = []\<rparr>) \<and>
   fst (calc_md5 toy_md5 ''/tmp/tmp0'' \<lparr>files = [''/tmp/tmp0'' \<mapsto> ''hello world!''], tick = 3, stdout = []\<rparr>) = Inr (md5 hello_desc) \<and>
   stdout (snd (bench_download toy_md5 example_env hello_desc (wrapper wget_subprocess_def) s0)) =
     [ThroughputLine ''wget_subprocess'' 2 12 6]"
  using example_tmp example_digest [of 3]
    throughput_is_size_over_elapsed [OF example_tmp example_wget _ example_digest [of 3]]
  by (simp add: example_env_def wget_subprocess_def_def)


lemma frozen_tmp:
  "NamedTemporaryFile frozen_env s0 = (Inr ''/tmp/tmp0'', \<lparr>files = [''/tmp/tmp0'' \<mapsto> []], tick = 1, stdout = []\<rparr>)"
  by (simp add: NamedTemporaryFile_def frozen_env_def example_env_def s0_def TMP_MAX_def)

lemma iter_content_small: "body \<noteq> [] \<Longrightarrow> length body \<le> n \<Longrightarrow> iter_content n body = [body]"
  by (subst iter_content.simps, subst iter_content.simps) (cases n; auto)

lemma frozen_requests_chunks:
  "call (wrapper requests_chunks_def) frozen_env (url hello_desc) ''/tmp/tmp0''
     \<lparr>files = [''/tmp/tmp0'' \<mapsto> []], tick = 1, stdout = []\<rparr>
   = (Inr 0, \<lparr>files = [''/tmp/tmp0'' \<mapsto> ''hello world!''], tick = 4, stdout = []\<rparr>)"
  by (simp add: wrapper_call requests_chunks_def_def frozen_env_def example_env_def hello_desc_def
      requests_get_def pbind_def ret_def open_wb_def fp_write_def iter_content_small)

text \<open>
  Claim C2, as stated, fails: with a clock that shows the same reading before and after
  the download, an iteration completes the download and the digest computation, the digest
  matches, and yet neither line is printed, since the division raises.
\<close>

theorem no_line_at_zero_elapsed_counterexample:
  "NamedTemporaryFile frozen_env s0
     = (Inr ''/tmp/tmp0'', \<lparr>files = [''/tmp/tmp0'' \<mapsto> []], tick = 1, stdout = []\<rparr>) \<and>
   call (wrapper requests_chunks_def) frozen_env (url hello_desc) ''/tmp/tmp0''
       \<lparr>files = [''/tmp/tmp0'' \<mapsto> []], tick = 1, stdout = []\<rparr>
     = (Inr 0, \<lparr>files = [''/tmp/tmp0'' \<mapsto> ''hello world!''], tick = 4, stdout = []\<rparr>) \<and>
   fst (calc_md5 toy_md5 ''/tmp/tmp0''
       \<lparr>files = [''/tmp/tmp0'' \<mapsto> ''hello world!''], tick = 4, stdout = []\<rparr>)
     = Inr (md5 hello_desc) \<and>
   fst (bench_download toy_md5 frozen_env hello_desc (wrapper requests_chunks_def) s0)
     = Inl ZeroDivisionError \<and>
   stdout (snd (bench_download toy_md5 frozen_env hello_desc (wrapper requests_chunks_def) s0)) = []"
  using frozen_tmp frozen_requests_chunks example_digest [of 4]
    bench_download_completed [OF frozen_tmp frozen_requests_chunks _ example_digest [of 4]]
  by simp

text \<open>
  Claim C2, amended.  For every iteration that completes the download and the digest
  computation: when the digest differs from the expected one, exactly one line is
  printed, the mismatch line with the strategy name, the file name, the size label and
  both digests, and no throughput is computed; when the digest matches and the elapsed
  time is not zero, exactly one line is printed, the throughput line.  Never both.
\<close>

theorem one_line_per_completed_iteration:
  assumes "NamedTemporaryFile e s = (Inr p, s1)"
    and "call f e (url fd) p s1 = (Inr t, s2)"
    and "files s2 p = Some c"
    and "fst (calc_md5 H p s2) = Inr d"
  shows "(d \<noteq> md5 fd \<longrightarrow>
            fst (bench_download H e fd f s) = Inr () \<and>
            stdout (snd (bench_download H e fd f s)) =
              stdout s2 @ [MismatchLine (func_name f) (name fd) (size_label fd) d (md5 fd)]) \<and>
         (d = md5 fd \<and> t \<noteq> 0 \<longrightarrow>
            fst (bench_download H e fd f s) = Inr () \<and>
            stdout (snd (bench_download H e fd f s)) =
              stdout s2 @ [ThroughputLine (func_name f) t (length c) (real (length c) / t)])"
  by (simp add: bench_download_completed [OF assms])

lemma example_requests_chunks:
  "call (wrapper requests_chunks_def) example_env (url hello_desc) ''/tmp/tmp0''
     \<lparr>files = [''/tmp/tmp0'' \<mapsto> []], tick = 1, stdout = []\<rparr>
   = (Inr 2, \<lparr>files = [''/tmp/tmp0'' \<mapsto> ''hello world!''], tick = 4, stdout = []\<rparr>)"
  by (simp add: wrapper_call requests_chunks_def_def example_env_def hello_desc_def
      requests_get_def pbind_def ret_def open_wb_def fp_write_def iter_content_small)

theorem one_line_per_completed_iteration_witness:
  "NamedTemporaryFile example_env s0
     = (Inr ''/tmp/tmp0'', \<lparr>files = [''/tmp/tmp0'' \<mapsto> []], tick = 1, stdout = []\<rparr>) \<and>
   call (wrapper requests_chunks_def) example_env (url hello_desc) ''/tmp/tmp0''
       \<lparr>files = [''/tmp/tmp0'' \<mapsto> []], tick = 1, stdout = []\<rparr>
     = (Inr 2, \<lparr>files = [''/tmp/tmp0'' \<mapsto> ''hello world!''], tick = 4, stdout = []\<rparr>) \<and>
   fst (calc_md5 toy_md5 ''/tmp/tmp0''
       \<lparr>files = [''/tmp/tmp0'' \<mapsto> ''hello world!''], tick = 4, stdout = []\<rparr>)
     = Inr (md5 hello_desc) \<and>
   fst (bench_download toy_md5 example_env hello_desc (wrapper requests_chunks_def) s0) = Inr () \<and>
   stdout (snd (bench_download toy_md5 example_env hello_desc (wrapper requests_chunks_def) s0))
     = [ThroughputLine ''requests_chunks'' 2 12 6]"
  using example_tmp example_requests_chunks example_digest [of 4]
    one_line_per_completed_iteration [OF example_tmp example_requests_chunks _ example_digest [of 4]]
  by (simp add: func_name_wrapper requests_chunks_def_def)


text \<open>
  Claim C9.  The throughput is computed by an unguarded division of the byte count by the
  elapsed time (end minus start of the invocation of the download function).  With a
  zero elapsed time the iteration fails with a division error and prints nothing; with a
  strictly positive elapsed time the division is defined and the iteration prints the
  throughput line.
\<close>

theorem zero_elapsed_raises_division_error:
  assumes "NamedTemporaryFile e s = (Inr p, s1)"
    and "call g e (url fd) p (s1\<lparr>tick := tick s1 + 1\<rparr>) = (Inr r, s2)"
    and "files s2 p = Some c"
    and "fst (calc_md5 H p s2) = Inr (md5 fd)"
  shows "(now e (tick s2) - now e (tick s1) = 0 \<longrightarrow>
            fst (bench_download H e fd (wrapper g) s) = Inl ZeroDivisionError \<and>
            stdout (snd (bench_download H e fd (wrapper g) s)) = stdout s2) \<and>
         (0 < now e (tick s2) - now e (tick s1) \<longrightarrow>
            fst (bench_download H e fd (wrapper g) s) = Inr () \<and>
            (\<exists>speed. 0 \<le> speed \<and>
               speed * (now e (tick s2) - now e (tick s1)) = real (length c) \<and>
               stdout (snd (bench_download H e fd (wrapper g) s)) =
                 stdout s2 @ [ThroughputLine (func_name g) (now e (tick s2) - now e (tick s1))
                                (length c) speed]))"
proof -
  let ?s3 = "s2\<lparr>tick := tick s2 + 1\<rparr>"
  have w: "call (wrapper g) e (url fd) p s1 = (Inr (now e (tick s2) - now e (tick s1)), ?s3)"
    using assms(2) by (simp add: wrapper_call)
  have f: "files ?s3 p = Some c" using assms(3) by simp
  have d: "fst (calc_md5 H p ?s3) = Inr (md5 fd)" using assms(4) by (simp add: calc_md5_tick)
  show ?thesis
    by (simp add: bench_download_completed [OF assms(1) w f d] func_name_wrapper)
qed

lemma frozen_curl:
  "call curl_subprocess_def frozen_env (url hello_desc) ''/tmp/tmp0''
     (\<lparr>files = [''/tmp/tmp0'' \<mapsto> []], tick = 1, stdout = []\<rparr>\<lparr>tick := tick \<lparr>files = [''/tmp/tmp0'' \<mapsto> []], tick = 1, stdout = []\<rparr> + 1\<rparr>)
   = (Inr (), \<lparr>files = [''/tmp/tmp0'' \<mapsto> ''hello world!''], tick = 3, stdout = []\<rparr>)"
  by (simp add: curl_subprocess_def_def frozen_env_def example_env_def hello_desc_def check_call_def pbind_def ret_def)

theorem zero_elapsed_raises_division_error_witness:
  "NamedTemporaryFile frozen_env s0
     = (Inr ''/tmp/tmp0'', \<lparr>files = [''/tmp/tmp0'' \<mapsto> []], tick = 1, stdout = []\<rparr>) \<and>
   fst (calc_md5 toy_md5 ''/tmp/tmp0''
       \<lparr>files = [''/tmp/tmp0'' \<mapsto> ''hello world!''], tick = 3, stdout = []\<rparr>)
     = Inr (md5 hello_desc) \<and>
   now frozen_env 3 - now frozen_env 1 = 0 \<and>
   fst (bench_download toy_md5 frozen_env hello_desc (wrapper curl_subprocess_def) s0)
     = Inl ZeroDivisionError \<and>
   stdout (snd (bench_download toy_md5 frozen_env hello_desc (wrapper curl_subprocess_def) s0)) = []"
  using frozen_tmp example_digest [of 3]
    zero_elapsed_raises_division_error [OF frozen_tmp frozen_curl _ example_digest [of 3]]
  by (simp add: frozen_env_def)

text \<open>
  Claim C10.  The registered strategies are exactly four, the timing wrappers that the
  decorator \<open>bench\<close> makes of the four download functions, in the order of their
  definition.  A wrapper drops what the function it wraps returns and returns the end
  reading minus the start reading of the clock, and the runner prints that value as the
  elapsed seconds of the iteration.
\<close>

theorem registered_strategies_are_timing_wrappers:
  assumes "NamedTemporaryFile e s = (Inr p, s1)"
    and "call g e (url fd) p (s1\<lparr>tick := tick s1 + 1\<rparr>) = (Inr r, s2)"
    and "files s2 p = Some c"
    and "fst (calc_md5 H p s2) = Inr (md5 fd)"
    and "now e (tick s2) \<noteq> now e (tick s1)"
  shows "DOWNLOAD_FUNCTIONS =
           map wrapper [requests_raw_shutil_def, requests_chunks_def,
                        wget_subprocess_def, curl_subprocess_def] \<and>
         call (wrapper g) e (url fd) p s1 =
           (Inr (now e (tick s2) - now e (tick s1)), s2\<lparr>tick := tick s2 + 1\<rparr>) \<and>
         (\<exists>total_bytes speed.
            stdout (snd (bench_download H e fd (wrapper g) s)) =
              stdout s2 @ [ThroughputLine (func_name g) (now e (tick s2) - now e (tick s1))
                             total_bytes speed])"
proof -
  let ?s3 = "s2\<lparr>tick := tick s2 + 1\<rparr>"
  have w: "call (wrapper g) e (url fd) p s1 = (Inr (now e (tick s2) - now e (tick s1)), ?s3)"
    using assms(2) by (simp add: wrapper_call)
  have f: "files ?s3 p = Some c" using assms(3) by simp
  have d: "fst (calc_md5 H p ?s3) = Inr (md5 fd)" using assms(4) by (simp add: calc_md5_tick)
  from assms(5) show ?thesis
    by (simp add: bench_download_completed [OF assms(1) w f d] func_name_wrapper w
        DOWNLOAD_FUNCTIONS_eq)
qed

theorem registered_strategies_are_timing_wrappers_witness:
  "NamedTemporaryFile example_env s0
     = (Inr ''/tmp/tmp0'', \<lparr>files = [''/tmp/tmp0'' \<mapsto> []], tick = 1, stdout = []\<rparr>) \<and>
   fst (calc_md5 toy_md5 ''/tmp/tmp0''
       \<lparr>files = [''/tmp/tmp0'' \<mapsto> ''hello world!''], tick = 3, stdout = []\<rparr>)
     = Inr (md5 hello_desc) \<and>
   now example_env 3 \<noteq> now example_env 1 \<and>
   length (DOWNLOAD_FUNCTIONS :: real func list) = 4 \<and>
   map func_name (DOWNLOAD_FUNCTIONS :: real func list) =
     [''requests_raw_shutil'', ''requests_chunks'', ''wget_subprocess'', ''curl_subprocess''] \<and>
   fst (call (wrapper wget_subprocess_def) example_env (url hello_desc) ''/tmp/tmp0''
          \<lparr>files = [''/tmp/tmp0'' \<mapsto> []], tick = 1, stdout = []\<rparr>) = Inr 2 \<and>
   (\<exists>total_bytes speed.
      stdout (snd (bench_download toy_md5 example_env hello_desc (wrapper wget_subprocess_def) s0))
        = [ThroughputLine ''wget_subprocess'' 2 total_bytes speed])"
proof -
  have n: "now example_env 3 \<noteq> now example_env 1" by (simp add: example_env_def)
  have h3: "files \<lparr>files = [''/tmp/tmp0'' \<mapsto> ''hello world!''], tick = 3, stdout = []\<rparr> ''/tmp/tmp0''
      = Some ''hello world!''" by simp
  have h5: "now example_env (tick \<lparr>files = [''/tmp/tmp0'' \<mapsto> ''hello world!''], tick = 3, stdout = []\<rparr>)
      \<noteq> now example_env (tick \<lparr>files = [''/tmp/tmp0'' \<mapsto> []], tick = 1, stdout = []\<rparr>)"
    using n by simp
  note th = registered_strategies_are_timing_wrappers
    [OF example_tmp example_wget h3 example_digest [of 3] h5]
  have el: "now example_env (tick \<lparr>files = [''/tmp/tmp0'' \<mapsto> ''hello world!''], tick = 3, stdout = []\<rparr>)
      - now example_env (tick \<lparr>files = [''/tmp/tmp0'' \<mapsto> []], tick = 1, stdout = []\<rparr>) = 2"
    by (simp add: example_env_def)
  have nm: "func_name wget_subprocess_def = ''wget_subprocess''"
    by (simp add: wget_subprocess_def_def)
  have c1: "length (DOWNLOAD_FUNCTIONS :: real func list) = 4"
    by (simp add: th [THEN conjunct1])
  have c2: "map func_name (DOWNLOAD_FUNCTIONS :: real func list) =
     [''requests_raw_shutil'', ''requests_chunks'', ''wget_subprocess'', ''curl_subprocess'']"
    by (simp add: th [THEN conjunct1] func_name_wrapper wget_subprocess_def_def
        requests_raw_shutil_def_def requests_chunks_def_def curl_subprocess_def_def)
  have c3: "fst (call (wrapper wget_subprocess_def) example_env (url hello_desc) ''/tmp/tmp0''
          \<lparr>files = [''/tmp/tmp0'' \<mapsto> []], tick = 1, stdout = []\<rparr>) = Inr 2"
    using th [THEN conjunct2, THEN conjunct1] by (simp only: el fst_conv)
  have c4: "\<exists>total_bytes speed.
      stdout (snd (bench_download toy_md5 example_env hello_desc (wrapper wget_subprocess_def) s0))
        = [ThroughputLine ''wget_subprocess'' 2 total_bytes speed]"
    using th [THEN conjunct2, THEN conjunct2] by (simp add: nm example_env_def)
  from example_tmp example_digest [of 3] n c1 c2 c3 c4 show ?thesis by blast
qed

text \<open>
  Claim C8.  When the tool spawned by the wget or the curl strategy exits with a non-zero
  status, the strategy raises \<open>CalledProcessError\<close>; the iteration then ends with an
  error and prints no line, so that no success is reported.
\<close>

theorem subprocess_nonzero_exit_raises:
  assumes "(g, argv) = (wget_subprocess_def, [''wget'', ''-q'', ''-O'', p, url fd]) \<or>
           (g, argv) = (curl_subprocess_def, [''curl'', ''-s'', ''-o'', p, url fd])"
    and "NamedTemporaryFile e s = (Inr p, s1)"
    and "spawn e (tick s1 + 1) argv (files s1) = Exited rc fs"
    and "rc \<noteq> 0"
  shows "call g e (url fd) p (s1\<lparr>tick := tick s1 + 1\<rparr>) =
           (Inl (CalledProcessError rc argv), s1\<lparr>files := fs, tick := tick s1 + 2\<rparr>) \<and>
         (\<exists>x. fst (bench_download H e fd (wrapper g) s) = Inl x \<and>
              (fs p \<noteq> None \<longrightarrow> x = CalledProcessError rc argv)) \<and>
         stdout (snd (bench_download H e fd (wrapper g) s)) = stdout s"
proof -
  have g: "call g e (url fd) p (s1\<lparr>tick := tick s1 + 1\<rparr>) =
      (Inl (CalledProcessError rc argv), s1\<lparr>files := fs, tick := tick s1 + 2\<rparr>)"
    using assms(1,3,4)
    by (auto simp: wget_subprocess_def_def curl_subprocess_def_def check_call_def pbind_def)
  then have w: "call (wrapper g) e (url fd) p s1 =
      (Inl (CalledProcessError rc argv), s1\<lparr>files := fs, tick := tick s1 + 2\<rparr>)"
    by (simp add: wrapper_call)
  have out: "stdout s1 = stdout s"
    using NamedTemporaryFile_Inr [OF assms(2)] by (cases s) auto
  show ?thesis
    using g out
    by (auto simp: bench_download_strategy_raises [OF assms(2) w] split: option.splits)
qed

lemma example_spawn_fails:
  "spawn example_env (tick \<lparr>files = [''/tmp/tmp0'' \<mapsto> []], tick = 1, stdout = []\<rparr> + 1)
     [''curl'', ''-s'', ''-o'', ''/tmp/tmp0'', url unreachable_desc]
     (files \<lparr>files = [''/tmp/tmp0'' \<mapsto> []], tick = 1, stdout = []\<rparr>)
   = Exited 4 [''/tmp/tmp0'' \<mapsto> []]"
  by (simp add: example_env_def unreachable_desc_def)

theorem subprocess_nonzero_exit_raises_witness:
  "NamedTemporaryFile example_env s0
     = (Inr ''/tmp/tmp0'', \<lparr>files = [''/tmp/tmp0'' \<mapsto> []], tick = 1, stdout = []\<rparr>) \<and>
   spawn example_env 2 [''curl'', ''-s'', ''-o'', ''/tmp/tmp0'', url unreachable_desc]
       [''/tmp/tmp0'' \<mapsto> []] = Exited 4 [''/tmp/tmp0'' \<mapsto> []] \<and>
   (4::int) \<noteq> 0 \<and>
   fst (bench_download toy_md5 example_env unreachable_desc (wrapper curl_subprocess_def) s0)
     = Inl (CalledProcessError 4 [''curl'', ''-s'', ''-o'', ''/tmp/tmp0'', ''http://invalid.invalid/'']) \<and>
   stdout (snd (bench_download toy_md5 example_env unreachable_desc (wrapper curl_subprocess_def) s0)) = []"
proof -
  have a: "(curl_subprocess_def, [''curl'', ''-s'', ''-o'', ''/tmp/tmp0'', url unreachable_desc])
         = (wget_subprocess_def, [''wget'', ''-q'', ''-O'', ''/tmp/tmp0'', url unreachable_desc]) \<or>
        (curl_subprocess_def, [''curl'', ''-s'', ''-o'', ''/tmp/tmp0'', url unreachable_desc])
         = (curl_subprocess_def, [''curl'', ''-s'', ''-o'', ''/tmp/tmp0'', url unreachable_desc])"
    by simp
  have r: "(4::int) \<noteq> 0" by simp
  have sp: "spawn example_env 2 [''curl'', ''-s'', ''-o'', ''/tmp/tmp0'', url unreachable_desc]
       [''/tmp/tmp0'' \<mapsto> []] = Exited 4 [''/tmp/tmp0'' \<mapsto> []]"
    by (simp add: example_env_def unreachable_desc_def)
  note th = subprocess_nonzero_exit_raises [OF a example_tmp example_spawn_fails r, where H = toy_md5]
  have c1: "fst (bench_download toy_md5 example_env unreachable_desc (wrapper curl_subprocess_def) s0)
     = Inl (CalledProcessError 4 [''curl'', ''-s'', ''-o'', ''/tmp/tmp0'', ''http://invalid.invalid/''])"
    using th [THEN conjunct2, THEN conjunct1] by (auto simp: unreachable_desc_def)
  have c2: "stdout (snd (bench_download toy_md5 example_env unreachable_desc (wrapper curl_subprocess_def) s0)) = []"
    using th [THEN conjunct2, THEN conjunct2] by (simp add: s0_def)
  from example_tmp sp r c1 c2 show ?thesis by blast
qed


lemma list_map_append_raises:
  "list_map f before s = (Inr rs, sa) \<Longrightarrow> f x sa = (Inl err, sb) \<Longrightarrow>
   list_map f (before @ x # after) s = (Inl err, sb)"
  by (induction before arbitrary: s rs)
    (auto simp: pbind_def ret_def split: prod.splits sum.splits)

lemma executor_map_append_raises:
  "executor_map e f before s = (Inr rs, sa) \<Longrightarrow> f x sa = (Inl err, sb) \<Longrightarrow>
   executor_map e f (before @ x # after) s = (Inl err, drain (pool_lag e (tick sb)) f after sb)"
  by (induction before arbitrary: s rs)
    (auto split: prod.splits sum.splits)

lemma run_download_bench_direct_raises:
  assumes "list_map (bench_download_args H e) (itertools_product FILES DOWNLOAD_FUNCTIONS)
             (snd (print (Header ''=== Benchmark download in main thread ==='') s)) = (Inl x, s')"
  shows "run_download_bench H e s = (Inl x, s')"
  using assms by (simp add: run_download_bench_def pbind_def print_def)

lemma run_download_bench_pool_raises:
  assumes "list_map (bench_download_args H e) (itertools_product FILES DOWNLOAD_FUNCTIONS)
             (snd (print (Header ''=== Benchmark download in main thread ==='') s)) = (Inr rs, sm)"
    and "executor_map e (bench_download_args H e) (itertools_product FILES DOWNLOAD_FUNCTIONS)
             (snd (print (Header ''=== Benchmark download in a single worker thread pool ==='') sm))
           = (Inl x, s')"
  shows "run_download_bench H e s = (Inl x, s')"
  using assms by (simp add: run_download_bench_def pbind_def print_def)

text \<open>
  Claim C1, amended.  When the invocation of a strategy fails, the error aborts that
  iteration, whose temporary file is still removed and for which nothing is printed, and
  then propagates out of the runner and ends the whole run.  After a failure in the
  direct pass no later pair is run and the pool pass is not started; after a failure in
  the pool pass the run ends with the error once the worker has run the queued pairs it
  started before the cancellation.
\<close>

theorem strategy_failure_ends_run:
  assumes "itertools_product FILES DOWNLOAD_FUNCTIONS = before @ (fd, f) # after"
    and "NamedTemporaryFile e sa = (Inr p, s1)"
    and "call f e (url fd) p s1 = (Inl x, s2)"
  shows "\<exists>x'. (files s2 p \<noteq> None \<longrightarrow> x' = x) \<and>
           bench_download H e fd f sa = (Inl x', s2\<lparr>files := (files s2)(p := None)\<rparr>) \<and>
           (\<forall>s rs.
              list_map (bench_download_args H e) before
                (snd (print (Header ''=== Benchmark download in main thread ==='') s)) = (Inr rs, sa)
              \<longrightarrow> run_download_bench H e s = (Inl x', s2\<lparr>files := (files s2)(p := None)\<rparr>)) \<and>
           (\<forall>s rs1 sm rs.
              list_map (bench_download_args H e) (itertools_product FILES DOWNLOAD_FUNCTIONS)
                (snd (print (Header ''=== Benchmark download in main thread ==='') s)) = (Inr rs1, sm) \<and>
              executor_map e (bench_download_args H e) before
                (snd (print (Header ''=== Benchmark download in a single worker thread pool ==='') sm))
                = (Inr rs, sa)
              \<longrightarrow> run_download_bench H e s =
                    (Inl x', drain (pool_lag e (tick s2)) (bench_download_args H e) after
                               (s2\<lparr>files := (files s2)(p := None)\<rparr>)))"
proof -
  let ?sb = "s2\<lparr>files := (files s2)(p := None)\<rparr>"
  obtain x' where x': "files s2 p \<noteq> None \<longrightarrow> x' = x"
    and b: "bench_download H e fd f sa = (Inl x', ?sb)"
  proof (cases "files s2 p")
    case None
    then have "(files s2)(p := None) = files s2" by auto
    then have "?sb = s2" by simp
    with None bench_download_strategy_raises [OF assms(2,3), of H] that [of "FileNotFoundError p"]
    show ?thesis by simp
  next
    case (Some c)
    with bench_download_strategy_raises [OF assms(2,3), of H] that [of x]
    show ?thesis by simp
  qed
  have ba: "bench_download_args H e (fd, f) sa = (Inl x', ?sb)"
    using b by (simp add: bench_download_args_def)
  have direct: "run_download_bench H e s = (Inl x', ?sb)"
    if "list_map (bench_download_args H e) before
          (snd (print (Header ''=== Benchmark download in main thread ==='') s)) = (Inr rs, sa)"
    for s rs
    using list_map_append_raises [OF that ba, of after] assms(1)
    by (simp add: run_download_bench_direct_raises)
  have pool: "run_download_bench H e s =
        (Inl x', drain (pool_lag e (tick s2)) (bench_download_args H e) after ?sb)"
    if "list_map (bench_download_args H e) (itertools_product FILES DOWNLOAD_FUNCTIONS)
          (snd (print (Header ''=== Benchmark download in main thread ==='') s)) = (Inr rs1, sm)"
      and "executor_map e (bench_download_args H e) before
          (snd (print (Header ''=== Benchmark download in a single worker thread pool ==='') sm))
          = (Inr rs, sa)"
    for s rs1 sm rs
    using executor_map_append_raises [OF that(2) ba, of after] assms(1) that(1)
    by (simp add: run_download_bench_pool_raises)
  show ?thesis
    apply (rule exI [of _ x'])
    apply (intro conjI allI impI)
    subgoal using x' by simp
    subgoal by (rule b)
    subgoal by (rule direct)
    subgoal by (erule conjE) (rule pool)
    done
qed


lemma pairs_eq:
  "itertools_product FILES DOWNLOAD_FUNCTIONS =
     [(FILES ! 0, wrapper requests_raw_shutil_def), (FILES ! 0, wrapper requests_chunks_def),
      (FILES ! 0, wrapper wget_subprocess_def), (FILES ! 0, wrapper curl_subprocess_def),
      (FILES ! 1, wrapper requests_raw_shutil_def), (FILES ! 1, wrapper requests_chunks_def),
      (FILES ! 1, wrapper wget_subprocess_def), (FILES ! 1, wrapper curl_subprocess_def),
      (FILES ! 2, wrapper requests_raw_shutil_def), (FILES ! 2, wrapper requests_chunks_def),
      (FILES ! 2, wrapper wget_subprocess_def), (FILES ! 2, wrapper curl_subprocess_def)]"
  by (simp add: itertools_product_def FILES_def DOWNLOAD_FUNCTIONS_eq)

lemma offline_tmp:
  "NamedTemporaryFile offline_env \<lparr>files = Map.empty, tick = 0, stdout = out\<rparr>
     = (Inr ''/tmp/tmp0'', \<lparr>files = [''/tmp/tmp0'' \<mapsto> []], tick = 1, stdout = out\<rparr>)"
  by (simp add: NamedTemporaryFile_def offline_env_def example_env_def TMP_MAX_def)

lemma offline_requests_raw_shutil:
  "call (wrapper requests_raw_shutil_def) offline_env u ''/tmp/tmp0''
     \<lparr>files = [''/tmp/tmp0'' \<mapsto> []], tick = 1, stdout = out\<rparr>
   = (Inl RequestException, \<lparr>files = [''/tmp/tmp0'' \<mapsto> []], tick = 3, stdout = out\<rparr>)"
  by (simp add: wrapper_call requests_raw_shutil_def_def offline_env_def example_env_def
      requests_get_def pbind_def)

text \<open>
  Claim C1, as stated, fails: without network the first strategy of the first file raises,
  and the run ends there with that error, with the first header as its whole output; none
  of the remaining pairs is run.
\<close>

theorem run_aborted_by_failure_counterexample:
  "fst (run_download_bench toy_md5 offline_env s0) = Inl RequestException \<and>
   stdout (snd (run_download_bench toy_md5 offline_env s0))
     = [Header ''=== Benchmark download in main thread ===''] \<and>
   tick (snd (run_download_bench toy_md5 offline_env s0)) = 3"
proof -
  let ?h = "Header ''=== Benchmark download in main thread ===''"
  have b: "bench_download_args toy_md5 offline_env (FILES ! 0, wrapper requests_raw_shutil_def)
             \<lparr>files = Map.empty, tick = 0, stdout = [?h]\<rparr>
           = (Inl RequestException, \<lparr>files = Map.empty, tick = 3, stdout = [?h]\<rparr>)"
    using bench_download_strategy_raises [OF offline_tmp [of "[?h]"]
        offline_requests_raw_shutil [of "url (FILES ! 0)" "[?h]"], where H = toy_md5]
    by (simp add: bench_download_args_def)
  have "list_map (bench_download_args toy_md5 offline_env)
          (itertools_product FILES DOWNLOAD_FUNCTIONS) (snd (print ?h s0))
        = (Inl RequestException, \<lparr>files = Map.empty, tick = 3, stdout = [?h]\<rparr>)"
    using b by (simp only: pairs_eq list_map.simps pbind_def print_def s0_def)
      simp
  from run_download_bench_direct_raises [OF this] show ?thesis by simp
qed


lemma no_tools_two_pairs:
  "list_map (bench_download_args toy_md5 no_tools_env)
     [(FILES ! 0, wrapper requests_raw_shutil_def), (FILES ! 0, wrapper requests_chunks_def)]
     (snd (print (Header ''=== Benchmark download in main thread ==='') s0))
   = (Inr [(), ()],
      \<lparr>files = Map.empty, tick = 8,
       stdout = [Header ''=== Benchmark download in main thread ==='',
                 MismatchLine ''requests_raw_shutil'' (name (FILES ! 0)) (size_label (FILES ! 0))
                   ''UsA='' (md5 (FILES ! 0)),
                 MismatchLine ''requests_chunks'' (name (FILES ! 0)) (size_label (FILES ! 0))
                   ''UsA='' (md5 (FILES ! 0))]\<rparr>)"
  by (simp add: bench_download_args_def bench_download_def pbind_def ret_def print_def s0_def
      NamedTemporaryFile_def no_tools_env_def example_env_def TMP_MAX_def try_finally_def
      wrapper_call requests_raw_shutil_def_def requests_chunks_def_def requests_get_def
      open_wb_def fp_write_def copyfileobj_def iter_content_small
      calc_md5_def open_rb_def read_loop.simps toy_md5_def b64_char_def b64_alphabet_def
      unlink_def FILES_def func_name_wrapper)


lemma no_tools_tmp:
  "NamedTemporaryFile no_tools_env \<lparr>files = Map.empty, tick = k, stdout = out\<rparr>
     = (Inr ''/tmp/tmp0'', \<lparr>files = [''/tmp/tmp0'' \<mapsto> []], tick = k + 1, stdout = out\<rparr>)"
  by (simp add: NamedTemporaryFile_def no_tools_env_def example_env_def TMP_MAX_def)

lemma no_tools_wget:
  "call (wrapper wget_subprocess_def) no_tools_env u ''/tmp/tmp0''
     \<lparr>files = [''/tmp/tmp0'' \<mapsto> []], tick = k + 1, stdout = out\<rparr>
   = (Inl (CalledProcessError 4 [''wget'', ''-q'', ''-O'', ''/tmp/tmp0'', u]),
      \<lparr>files = [''/tmp/tmp0'' \<mapsto> []], tick = k + 3, stdout = out\<rparr>)"
  by (simp add: wrapper_call wget_subprocess_def_def no_tools_env_def example_env_def
      check_call_def pbind_def)

theorem strategy_failure_ends_run_witness:
  "itertools_product FILES DOWNLOAD_FUNCTIONS =
     [(FILES ! 0, wrapper requests_raw_shutil_def), (FILES ! 0, wrapper requests_chunks_def)]
     @ (FILES ! 0, wrapper wget_subprocess_def)
     # drop 3 (itertools_product FILES DOWNLOAD_FUNCTIONS) \<and>
   fst (NamedTemporaryFile no_tools_env
          (snd (list_map (bench_download_args toy_md5 no_tools_env)
                  [(FILES ! 0, wrapper requests_raw_shutil_def), (FILES ! 0, wrapper requests_chunks_def)]
                  (snd (print (Header ''=== Benchmark download in main thread ==='') s0)))))
     = Inr ''/tmp/tmp0'' \<and>
   fst (call (wrapper wget_subprocess_def) no_tools_env (url (FILES ! 0)) ''/tmp/tmp0''
          (snd (NamedTemporaryFile no_tools_env
             (snd (list_map (bench_download_args toy_md5 no_tools_env)
                     [(FILES ! 0, wrapper requests_raw_shutil_def), (FILES ! 0, wrapper requests_chunks_def)]
                     (snd (print (Header ''=== Benchmark download in main thread ==='') s0)))))))
     = Inl (CalledProcessError 4 [''wget'', ''-q'', ''-O'', ''/tmp/tmp0'', url (FILES ! 0)]) \<and>
   run_download_bench toy_md5 no_tools_env s0 =
     (Inl (CalledProcessError 4 [''wget'', ''-q'', ''-O'', ''/tmp/tmp0'', url (FILES ! 0)]),
      \<lparr>files = Map.empty, tick = 11,
       stdout = [Header ''=== Benchmark download in main thread ==='',
                 MismatchLine ''requests_raw_shutil'' (name (FILES ! 0)) (size_label (FILES ! 0))
                   ''UsA='' (md5 (FILES ! 0)),
                 MismatchLine ''requests_chunks'' (name (FILES ! 0)) (size_label (FILES ! 0))
                   ''UsA='' (md5 (FILES ! 0))]\<rparr>)"
proof -
  let ?out = "[Header ''=== Benchmark download in main thread ==='',
                 MismatchLine ''requests_raw_shutil'' (name (FILES ! 0)) (size_label (FILES ! 0))
                   ''UsA='' (md5 (FILES ! 0)),
                 MismatchLine ''requests_chunks'' (name (FILES ! 0)) (size_label (FILES ! 0))
                   ''UsA='' (md5 (FILES ! 0))]"
  have split: "itertools_product FILES DOWNLOAD_FUNCTIONS =
     [(FILES ! 0, wrapper requests_raw_shutil_def), (FILES ! 0, wrapper requests_chunks_def)]
     @ (FILES ! 0, wrapper wget_subprocess_def)
     # drop 3 (itertools_product FILES DOWNLOAD_FUNCTIONS)"
    by (simp add: pairs_eq)
  have tmp: "fst (NamedTemporaryFile no_tools_env
          (snd (list_map (bench_download_args toy_md5 no_tools_env)
                  [(FILES ! 0, wrapper requests_raw_shutil_def), (FILES ! 0, wrapper requests_chunks_def)]
                  (snd (print (Header ''=== Benchmark download in main thread ==='') s0)))))
     = Inr ''/tmp/tmp0''"
    by (simp only: no_tools_two_pairs snd_conv no_tools_tmp [of 8 ?out] fst_conv)
  from strategy_failure_ends_run
    [OF split no_tools_tmp [of 8 ?out] no_tools_wget [of "url (FILES ! 0)" 8 ?out],
      where H = toy_md5]
  obtain x' where
    a: "files \<lparr>files = [''/tmp/tmp0'' \<mapsto> []], tick = 8 + 3, stdout = ?out\<rparr> ''/tmp/tmp0'' \<noteq> None
        \<longrightarrow> x' = CalledProcessError 4 [''wget'', ''-q'', ''-O'', ''/tmp/tmp0'', url (FILES ! 0)]"
    and d: "\<And>s rs. list_map (bench_download_args toy_md5 no_tools_env)
                [(FILES ! 0, wrapper requests_raw_shutil_def), (FILES ! 0, wrapper requests_chunks_def)]
                (snd (print (Header ''=== Benchmark download in main thread ==='') s))
              = (Inr rs, \<lparr>files = Map.empty, tick = 8, stdout = ?out\<rparr>)
           \<Longrightarrow> run_download_bench toy_md5 no_tools_env s =
               (Inl x', \<lparr>files = [''/tmp/tmp0'' \<mapsto> []], tick = 8 + 3, stdout = ?out\<rparr>
                  \<lparr>files := (files \<lparr>files = [''/tmp/tmp0'' \<mapsto> []], tick = 8 + 3, stdout = ?out\<rparr>)
                              (''/tmp/tmp0'' := None)\<rparr>)"
    by blast
  from a have x': "x' = CalledProcessError 4 [''wget'', ''-q'', ''-O'', ''/tmp/tmp0'', url (FILES ! 0)]"
    by simp
  from d [OF no_tools_two_pairs] have
    "run_download_bench toy_md5 no_tools_env s0 =
     (Inl (CalledProcessError 4 [''wget'', ''-q'', ''-O'', ''/tmp/tmp0'', url (FILES ! 0)]),
      \<lparr>files = Map.empty, tick = 11, stdout = ?out\<rparr>)"
    by (simp add: x')
  moreover have "fst (call (wrapper wget_subprocess_def) no_tools_env (url (FILES ! 0)) ''/tmp/tmp0''
          (snd (NamedTemporaryFile no_tools_env
             (snd (list_map (bench_download_args toy_md5 no_tools_env)
                     [(FILES ! 0, wrapper requests_raw_shutil_def), (FILES ! 0, wrapper requests_chunks_def)]
                     (snd (print (Header ''=== Benchmark download in main thread ==='') s0)))))))
     = Inl (CalledProcessError 4 [''wget'', ''-q'', ''-O'', ''/tmp/tmp0'', url (FILES ! 0)])"
    by (simp only: no_tools_two_pairs snd_conv no_tools_tmp [of 8 ?out]
        no_tools_wget [of "url (FILES ! 0)" 8 ?out] fst_conv)
  ultimately show ?thesis using split tmp by (simp only: simp_thms)
qed

subsection \<open>The two passes\<close>

lemma write_chunks_eq:
  "write_chunks p cs s =
     (Inr (), s\<lparr>files := foldl (\<lambda>fs c. fs(p \<mapsto> (case fs p of None \<Rightarrow> [] | Some x \<Rightarrow> x) @ c))
                            (files s) cs\<rparr>)"
  by (induction cs arbitrary: s) (simp_all add: ret_def pbind_def fp_write_def)

lemma strategy_sim:
  assumes "f \<in> set DOWNLOAD_FUNCTIONS" and "same_answers d e1 e2"
    and "files s2 = files s1" and "tick s2 = tick s1 + d"
  shows "files (snd (call f e2 u p s2)) = files (snd (call f e1 u p s1)) \<and>
         tick (snd (call f e2 u p s2)) = tick (snd (call f e1 u p s1)) + d \<and>
         stdout (snd (call f e1 u p s1)) = stdout s1 \<and>
         stdout (snd (call f e2 u p s2)) = stdout s2 \<and>
         (\<forall>x. fst (call f e1 u p s1) = Inl x \<longleftrightarrow> fst (call f e2 u p s2) = Inl x)"
proof -
  from assms(2) have h: "\<And>k. http e2 (k + d) = http e1 k" and sp: "\<And>k. spawn e2 (k + d) = spawn e1 k"
    by (simp_all add: same_answers_def)
  have h': "http e2 (Suc (tick s1 + d)) = http e1 (Suc (tick s1))" using h [of "Suc (tick s1)"] by simp
  have sp': "spawn e2 (Suc (tick s1 + d)) = spawn e1 (Suc (tick s1))" using sp [of "Suc (tick s1)"] by simp
  from assms(1) consider "f = wrapper requests_raw_shutil_def" | "f = wrapper requests_chunks_def"
    | "f = wrapper wget_subprocess_def" | "f = wrapper curl_subprocess_def"
    by (auto simp: DOWNLOAD_FUNCTIONS_eq)
  then show ?thesis
  proof cases
    case 1
    with assms(3,4) h' show ?thesis
      by (auto simp: wrapper_call requests_raw_shutil_def_def requests_get_def pbind_def ret_def
          raise_def open_wb_def fp_write_def copyfileobj_def
          split: http_result.splits option.splits)
  next
    case 2
    with assms(3,4) h' show ?thesis
      by (auto simp: wrapper_call requests_chunks_def_def requests_get_def pbind_def ret_def
          raise_def open_wb_def write_chunks_eq
          split: http_result.splits option.splits)
  next
    case 3
    with assms(3,4) sp' show ?thesis
      by (auto simp: wrapper_call wget_subprocess_def_def check_call_def pbind_def ret_def
          split: proc_result.splits)
  next
    case 4
    with assms(3,4) sp' show ?thesis
      by (auto simp: wrapper_call curl_subprocess_def_def check_call_def pbind_def ret_def
          split: proc_result.splits)
  qed
qed


lemma bench_download_args_pair:
  "bench_download_args H e (fd, f) = bench_download H e fd f"
  by (rule ext) (simp add: bench_download_args_def)

lemma strategy_stdout:
  assumes "f \<in> set DOWNLOAD_FUNCTIONS"
  shows "stdout (snd (call f e u p s)) = stdout s"
proof -
  have "same_answers 0 e e" by (simp add: same_answers_def)
  from strategy_sim [OF assms this, of s s u p] show ?thesis by simp
qed

lemma bench_download_Inr:
  assumes "bench_download H e fd f s = (Inr v, s')"
  obtains p s1 t s2 c where "NamedTemporaryFile e s = (Inr p, s1)"
    and "call f e (url fd) p s1 = (Inr t, s2)" and "files s2 p = Some c"
proof -
  obtain r0 s1 where n: "NamedTemporaryFile e s = (r0, s1)" by (cases "NamedTemporaryFile e s")
  obtain p where p: "r0 = Inr p"
    using assms n by (cases r0) (auto simp: bench_download_def pbind_def)
  obtain r1 s2 where c: "call f e (url fd) p s1 = (r1, s2)" by (cases "call f e (url fd) p s1")
  obtain t where t: "r1 = Inr t"
    using assms bench_download_strategy_raises [OF n [unfolded p], of f fd _ s2 H] c
    by (cases r1) (auto split: option.splits)
  obtain cnt where "files s2 p = Some cnt"
    using assms bench_download_file_gone [OF n [unfolded p] c [unfolded t], of H]
    by (cases "files s2 p") auto
  with n p c t that show ?thesis by blast
qed

text \<open>A completed iteration of a registered strategy prints one line, about its pair.\<close>

lemma bench_download_prints_line:
  assumes "f \<in> set DOWNLOAD_FUNCTIONS" and "bench_download H e fd f s = (Inr v, s')"
  shows "\<exists>l. stdout s' = stdout s @ [l] \<and> line_about l (fd, f)"
proof -
  from assms(2) obtain p s1 t s2 c where n: "NamedTemporaryFile e s = (Inr p, s1)"
    and c: "call f e (url fd) p s1 = (Inr t, s2)" and f: "files s2 p = Some c"
    by (rule bench_download_Inr)
  have o1: "stdout s1 = stdout s" using NamedTemporaryFile_Inr [OF n] by (cases s) auto
  have o2: "stdout s2 = stdout s1" using strategy_stdout [OF assms(1), of e "url fd" p s1] c by simp
  have d: "fst (calc_md5 H p s2) = Inr (b64encode (h_digest H (read_loop H (1024 * 1024) c 0 (h_new H))))"
    using f by (simp add: calc_md5_present)
  from bench_download_completed [OF n c f d] assms(2) o1 o2 show ?thesis
    by (auto split: if_splits)
qed

lemma list_map_prints_lines:
  assumes "\<forall>(fd, f) \<in> set xs. f \<in> set DOWNLOAD_FUNCTIONS"
    and "list_map (bench_download_args H e) xs s = (Inr rs, s')"
  shows "\<exists>L. stdout s' = stdout s @ L \<and> list_all2 line_about L xs"
  using assms
proof (induction xs arbitrary: s rs)
  case Nil
  then show ?case by (simp add: ret_def)
next
  case (Cons x xs)
  obtain fd f where x: "x = (fd, f)" by (cases x)
  from Cons.prems(2) obtain v s1 rs' where
    b: "bench_download H e fd f s = (Inr v, s1)" and
    r: "list_map (bench_download_args H e) xs s1 = (Inr rs', s')"
    by (auto simp: x pbind_def ret_def bench_download_args_pair split: prod.splits sum.splits)
  from Cons.prems(1) have fin: "f \<in> set DOWNLOAD_FUNCTIONS" by (simp add: x)
  from bench_download_prints_line [OF fin b] obtain l where
    l: "stdout s1 = stdout s @ [l]" "line_about l (fd, f)" by blast
  from Cons.IH [OF _ r] Cons.prems(1) obtain L where
    L: "stdout s' = stdout s1 @ L" "list_all2 line_about L xs" by auto
  from l L have "stdout s' = stdout s @ (l # L) \<and> list_all2 line_about (l # L) (x # xs)"
    by (simp add: x)
  then show ?case by blast
qed

lemma executor_map_Inr:
  "executor_map e f xs s = (Inr rs, s') \<Longrightarrow> list_map f xs s = (Inr rs, s')"
  by (induction xs arbitrary: s rs)
    (auto simp: pbind_def ret_def split: prod.splits sum.splits)

lemma list_map_Inr_executor_map:
  "list_map f xs s = (Inr rs, s') \<Longrightarrow> executor_map e f xs s = (Inr rs, s')"
  by (induction xs arbitrary: s rs)
    (auto simp: pbind_def ret_def split: prod.splits sum.splits)

lemma registered_pairs:
  "\<forall>(fd, f) \<in> set (itertools_product fds DOWNLOAD_FUNCTIONS). f \<in> set DOWNLOAD_FUNCTIONS"
  by (auto simp: itertools_product_def)

lemma run_download_bench_Inr:
  assumes "run_download_bench H e s = (Inr v, s')"
  obtains rs1 sm rs2 where
    "list_map (bench_download_args H e) (itertools_product FILES DOWNLOAD_FUNCTIONS)
       (snd (print (Header ''=== Benchmark download in main thread ==='') s)) = (Inr rs1, sm)"
    "executor_map e (bench_download_args H e) (itertools_product FILES DOWNLOAD_FUNCTIONS)
       (snd (print (Header ''=== Benchmark download in a single worker thread pool ==='') sm))
       = (Inr rs2, s')"
  using assms
  by (auto simp: run_download_bench_def pbind_def print_def ret_def split: prod.splits sum.splits)

text \<open>
  Claim C6.  The pairs are taken in cross-product order, all strategies for the first
  file, then all strategies for the second, and so on.  A run that returns has printed the
  first header, run the whole sequence directly in the calling thread, printed the second
  header and run the whole sequence once more through the pool of one worker; every pair
  has printed its line, in that order, in each pass.
\<close>

theorem run_download_bench_order:
  assumes "run_download_bench H e s = (Inr (), s')"
  shows "itertools_product FILES DOWNLOAD_FUNCTIONS =
           [(FILES ! 0, DOWNLOAD_FUNCTIONS ! 0), (FILES ! 0, DOWNLOAD_FUNCTIONS ! 1),
            (FILES ! 0, DOWNLOAD_FUNCTIONS ! 2), (FILES ! 0, DOWNLOAD_FUNCTIONS ! 3),
            (FILES ! 1, DOWNLOAD_FUNCTIONS ! 0), (FILES ! 1, DOWNLOAD_FUNCTIONS ! 1),
            (FILES ! 1, DOWNLOAD_FUNCTIONS ! 2), (FILES ! 1, DOWNLOAD_FUNCTIONS ! 3),
            (FILES ! 2, DOWNLOAD_FUNCTIONS ! 0), (FILES ! 2, DOWNLOAD_FUNCTIONS ! 1),
            (FILES ! 2, DOWNLOAD_FUNCTIONS ! 2), (FILES ! 2, DOWNLOAD_FUNCTIONS ! 3)] \<and>
         (\<exists>rs1 sm rs2 L1 L2.
            list_map (bench_download_args H e) (itertools_product FILES DOWNLOAD_FUNCTIONS)
              (snd (print (Header ''=== Benchmark download in main thread ==='') s)) = (Inr rs1, sm) \<and>
            executor_map e (bench_download_args H e) (itertools_product FILES DOWNLOAD_FUNCTIONS)
              (snd (print (Header ''=== Benchmark download in a single worker thread pool ==='') sm))
              = (Inr rs2, s') \<and>
            stdout sm = stdout s @ Header ''=== Benchmark download in main thread ==='' # L1 \<and>
            stdout s' = stdout sm @ Header ''=== Benchmark download in a single worker thread pool ==='' # L2 \<and>
            list_all2 line_about L1 (itertools_product FILES DOWNLOAD_FUNCTIONS) \<and>
            list_all2 line_about L2 (itertools_product FILES DOWNLOAD_FUNCTIONS))"
proof -
  let ?pairs = "itertools_product FILES DOWNLOAD_FUNCTIONS"
  have order: "?pairs =
           [(FILES ! 0, DOWNLOAD_FUNCTIONS ! 0), (FILES ! 0, DOWNLOAD_FUNCTIONS ! 1),
            (FILES ! 0, DOWNLOAD_FUNCTIONS ! 2), (FILES ! 0, DOWNLOAD_FUNCTIONS ! 3),
            (FILES ! 1, DOWNLOAD_FUNCTIONS ! 0), (FILES ! 1, DOWNLOAD_FUNCTIONS ! 1),
            (FILES ! 1, DOWNLOAD_FUNCTIONS ! 2), (FILES ! 1, DOWNLOAD_FUNCTIONS ! 3),
            (FILES ! 2, DOWNLOAD_FUNCTIONS ! 0), (FILES ! 2, DOWNLOAD_FUNCTIONS ! 1),
            (FILES ! 2, DOWNLOAD_FUNCTIONS ! 2), (FILES ! 2, DOWNLOAD_FUNCTIONS ! 3)]"
    by (simp add: itertools_product_def FILES_def DOWNLOAD_FUNCTIONS_eq)
  from assms obtain rs1 sm rs2 where
    p1: "list_map (bench_download_args H e) ?pairs
       (snd (print (Header ''=== Benchmark download in main thread ==='') s)) = (Inr rs1, sm)" and
    p2: "executor_map e (bench_download_args H e) ?pairs
       (snd (print (Header ''=== Benchmark download in a single worker thread pool ==='') sm))
       = (Inr rs2, s')"
    by (rule run_download_bench_Inr)
  from list_map_prints_lines [OF registered_pairs p1] obtain L1 where
    L1: "stdout sm = stdout s @ Header ''=== Benchmark download in main thread ==='' # L1"
        "list_all2 line_about L1 ?pairs"
    by (auto simp: print_def)
  from list_map_prints_lines [OF registered_pairs executor_map_Inr [OF p2]] obtain L2 where
    L2: "stdout s' = stdout sm @ Header ''=== Benchmark download in a single worker thread pool ==='' # L2"
        "list_all2 line_about L2 ?pairs"
    by (auto simp: print_def)
  from p1 p2 L1 L2 have "\<exists>rs1 sm rs2 L1 L2.
            list_map (bench_download_args H e) ?pairs
              (snd (print (Header ''=== Benchmark download in main thread ==='') s)) = (Inr rs1, sm) \<and>
            executor_map e (bench_download_args H e) ?pairs
              (snd (print (Header ''=== Benchmark download in a single worker thread pool ==='') sm))
              = (Inr rs2, s') \<and>
            stdout sm = stdout s @ Header ''=== Benchmark download in main thread ==='' # L1 \<and>
            stdout s' = stdout sm @ Header ''=== Benchmark download in a single worker thread pool ==='' # L2 \<and>
            list_all2 line_about L1 ?pairs \<and> list_all2 line_about L2 ?pairs"
    by (intro exI conjI)
  with order show ?thesis by (rule conjI)
qed


lemma example_world_strategy:
  assumes "http e = http example_env" and "spawn e = spawn example_env"
    and "f \<in> set DOWNLOAD_FUNCTIONS" and "u \<noteq> ''http://invalid.invalid/''"
  shows "call f e u ''/tmp/tmp0'' \<lparr>files = [''/tmp/tmp0'' \<mapsto> []], tick = k + 1, stdout = out\<rparr>
       = (Inr (now e (k + 3) - now e (k + 1)),
          \<lparr>files = [''/tmp/tmp0'' \<mapsto> ''hello world!''], tick = k + 4, stdout = out\<rparr>)"
proof -
  from assms(3) consider "f = wrapper requests_raw_shutil_def" | "f = wrapper requests_chunks_def"
    | "f = wrapper wget_subprocess_def" | "f = wrapper curl_subprocess_def"
    by (auto simp: DOWNLOAD_FUNCTIONS_eq)
  then show ?thesis
  proof cases
    case 1
    with assms(1,4) show ?thesis
      by (simp add: wrapper_call requests_raw_shutil_def_def requests_get_def pbind_def ret_def
          open_wb_def fp_write_def copyfileobj_def example_env_def numeral_3_eq_3)
  next
    case 2
    with assms(1,4) show ?thesis
      by (simp add: wrapper_call requests_chunks_def_def requests_get_def pbind_def ret_def
          open_wb_def fp_write_def iter_content_small example_env_def numeral_3_eq_3)
  next
    case 3
    with assms(2,4) show ?thesis
      by (simp add: wrapper_call wget_subprocess_def_def check_call_def pbind_def ret_def
          example_env_def numeral_3_eq_3)
  next
    case 4
    with assms(2,4) show ?thesis
      by (simp add: wrapper_call curl_subprocess_def_def check_call_def pbind_def ret_def
          example_env_def numeral_3_eq_3)
  qed
qed


lemma example_world_tmp:
  assumes "tmpnames e = tmpnames example_env"
  shows "NamedTemporaryFile e \<lparr>files = Map.empty, tick = k, stdout = out\<rparr>
       = (Inr ''/tmp/tmp0'', \<lparr>files = [''/tmp/tmp0'' \<mapsto> []], tick = k + 1, stdout = out\<rparr>)"
  using assms by (simp add: NamedTemporaryFile_def example_env_def TMP_MAX_def)

lemma example_world_iteration:
  assumes "http e = http example_env" and "spawn e = spawn example_env"
    and "tmpnames e = tmpnames example_env"
    and "f \<in> set DOWNLOAD_FUNCTIONS" and "url fd \<noteq> ''http://invalid.invalid/''"
    and "now e (k + 3) \<noteq> now e (k + 1)"
  shows "bench_download_args toy_md5 e (fd, f) \<lparr>files = Map.empty, tick = k, stdout = out\<rparr>
       = (Inr (), \<lparr>files = Map.empty, tick = k + 4, stdout = out @ [example_line e k (fd, f)]\<rparr>)"
proof -
  have d: "fst (calc_md5 toy_md5 ''/tmp/tmp0''
              \<lparr>files = [''/tmp/tmp0'' \<mapsto> ''hello world!''], tick = k + 4, stdout = out\<rparr>)
           = Inr ''UsA=''"
    by (simp add: calc_md5_def pbind_def open_rb_def ret_def read_loop_whole incremental_toy_md5
        toy_md5_hello)
  have f: "files \<lparr>files = [''/tmp/tmp0'' \<mapsto> ''hello world!''], tick = k + 4, stdout = out\<rparr>
             ''/tmp/tmp0'' = Some ''hello world!''"
    by simp
  from assms(6)
  show ?thesis
    by (simp add: bench_download_args_pair example_line_def
        bench_download_completed [OF example_world_tmp [OF assms(3)]
          example_world_strategy [OF assms(1,2,4,5)] f d])
qed

lemma example_world_pass:
  assumes "http e = http example_env" and "spawn e = spawn example_env"
    and "tmpnames e = tmpnames example_env"
    and "\<forall>(fd, f) \<in> set xs. f \<in> set DOWNLOAD_FUNCTIONS \<and> url fd \<noteq> ''http://invalid.invalid/''"
    and "\<forall>k. now e (k + 3) \<noteq> now e (k + 1)"
  shows "list_map (bench_download_args toy_md5 e) xs \<lparr>files = Map.empty, tick = k, stdout = out\<rparr>
       = (Inr (replicate (length xs) ()),
          \<lparr>files = Map.empty, tick = k + 4 * length xs,
           stdout = out @ map (\<lambda>i. example_line e (k + 4 * i) (xs ! i)) [0..<length xs]\<rparr>)"
  using assms(4)
proof (induction xs arbitrary: k out)
  case Nil
  then show ?case by (simp add: ret_def)
next
  case (Cons x xs)
  obtain fd f where x: "x = (fd, f)" by (cases x)
  from Cons.prems have fin: "f \<in> set DOWNLOAD_FUNCTIONS" and u: "url fd \<noteq> ''http://invalid.invalid/''"
    and rest: "\<forall>(fd, f) \<in> set xs. f \<in> set DOWNLOAD_FUNCTIONS \<and> url fd \<noteq> ''http://invalid.invalid/''"
    by (auto simp: x)
  from assms(5) have n: "now e (k + 3) \<noteq> now e (k + 1)" by simp
  have m: "map (\<lambda>i. example_line e (k + 4 * i) ((x # xs) ! i)) [0..<length (x # xs)]
      = example_line e k x # map (\<lambda>i. example_line e (k + 4 + 4 * i) (xs ! i)) [0..<length xs]"
    by (simp add: upt_conv_Cons map_Suc_upt [symmetric] add.assoc del: upt_Suc)
  note step = example_world_iteration [OF assms(1-3) fin u n, of out]
  note ih = Cons.IH [OF rest, of "k + 4" "out @ [example_line e k (fd, f)]"]
  show ?case
    using step ih m by (simp add: x pbind_def ret_def add.assoc)
qed


lemma example_pairs_ok:
  "\<forall>(fd, f) \<in> set (itertools_product FILES DOWNLOAD_FUNCTIONS).
     f \<in> set DOWNLOAD_FUNCTIONS \<and> url fd \<noteq> ''http://invalid.invalid/''"
  by (auto simp: itertools_product_def FILES_def)

lemma example_clock_moves: "\<forall>k. now example_env (k + 3) \<noteq> now example_env (k + 1)"
  by (simp add: example_env_def)

lemma example_run:
  "\<exists>out. run_download_bench toy_md5 example_env s0 =
     (Inr (), \<lparr>files = Map.empty, tick = 96, stdout = out\<rparr>)"
proof -
  let ?pairs = "itertools_product FILES DOWNLOAD_FUNCTIONS"
  have len: "length ?pairs = 12"
    by (simp add: itertools_product_def FILES_def DOWNLOAD_FUNCTIONS_eq)
  note p = example_world_pass [OF refl refl refl example_pairs_ok example_clock_moves]
  show ?thesis
    by (simp add: run_download_bench_def pbind_def print_def ret_def s0_def p len
        list_map_Inr_executor_map [OF p])
qed

theorem run_download_bench_order_witness:
  "run_download_bench toy_md5 example_env s0
     = (Inr (), snd (run_download_bench toy_md5 example_env s0)) \<and>
   tick (snd (run_download_bench toy_md5 example_env s0)) = 96 \<and>
   itertools_product FILES DOWNLOAD_FUNCTIONS =
           [(FILES ! 0, DOWNLOAD_FUNCTIONS ! 0), (FILES ! 0, DOWNLOAD_FUNCTIONS ! 1),
            (FILES ! 0, DOWNLOAD_FUNCTIONS ! 2), (FILES ! 0, DOWNLOAD_FUNCTIONS ! 3),
            (FILES ! 1, DOWNLOAD_FUNCTIONS ! 0), (FILES ! 1, DOWNLOAD_FUNCTIONS ! 1),
            (FILES ! 1, DOWNLOAD_FUNCTIONS ! 2), (FILES ! 1, DOWNLOAD_FUNCTIONS ! 3),
            (FILES ! 2, DOWNLOAD_FUNCTIONS ! 0), (FILES ! 2, DOWNLOAD_FUNCTIONS ! 1),
            (FILES ! 2, DOWNLOAD_FUNCTIONS ! 2), (FILES ! 2, DOWNLOAD_FUNCTIONS ! 3)] \<and>
   (\<exists>L1 L2.
      stdout (snd (run_download_bench toy_md5 example_env s0)) =
        Header ''=== Benchmark download in main thread ==='' # L1 @
        Header ''=== Benchmark download in a single worker thread pool ==='' # L2 \<and>
      list_all2 line_about L1 (itertools_product FILES DOWNLOAD_FUNCTIONS) \<and>
      list_all2 line_about L2 (itertools_product FILES DOWNLOAD_FUNCTIONS))"
proof -
  from example_run obtain out where
    r: "run_download_bench toy_md5 example_env s0 =
          (Inr (), \<lparr>files = Map.empty, tick = 96, stdout = out\<rparr>)" ..
  then have h: "run_download_bench toy_md5 example_env s0
     = (Inr (), snd (run_download_bench toy_md5 example_env s0))"
    and t: "tick (snd (run_download_bench toy_md5 example_env s0)) = 96"
    by simp_all
  note th = run_download_bench_order [OF h]
  have "\<exists>L1 L2.
      stdout (snd (run_download_bench toy_md5 example_env s0)) =
        Header ''=== Benchmark download in main thread ==='' # L1 @
        Header ''=== Benchmark download in a single worker thread pool ==='' # L2 \<and>
      list_all2 line_about L1 (itertools_product FILES DOWNLOAD_FUNCTIONS) \<and>
      list_all2 line_about L2 (itertools_product FILES DOWNLOAD_FUNCTIONS)"
    using th [THEN conjunct2]
    apply (elim exE conjE)
    subgoal for rs1 sm rs2 L1 L2
      by (rule exI [of _ L1], rule exI [of _ L2]) (simp add: s0_def)
    done
  with h t th [THEN conjunct1] show ?thesis by (intro conjI)
qed










end
